theory Spec2Isabelle
  imports Main "HOL-Library.AList"
begin

section \<open>Data model of run.py\<close>

text \<open>
  The controller keeps its state in Python dictionaries. A dictionary is modelled as an
  association list with distinct keys in insertion order: \<open>d[k] = v\<close> is
  \<open>AList.update k v\<close> (an existing key keeps its place, a new key goes to the end),
  \<open>del d[k]\<close> is \<open>AList.delete k\<close>, \<open>k in d\<close> is \<open>map_of d k \<noteq> None\<close> and
  \<open>list(d.items())\<close> is the list itself.

  Time stamps (\<open>datetime\<close>) are integers counting microseconds, a \<open>timedelta\<close> is an
  integer number of microseconds. Process objects returned by \<open>subprocess.Popen\<close> are
  natural numbers handed out by a counter, so two launches never share a handle.
\<close>

text \<open>The dictionary stored per project in \<open>running_processes\<close> and \<open>paused_processes\<close>.\<close>

record run_state =
  processes :: "nat list"
  chat_id :: int
  start_time :: int
  end_time :: "int option"
  project_name :: string
  user_id :: "int option"
  pinned :: bool
  main_files :: "string list"
  auto_restart :: bool

text \<open>An entry of the per-user lists in \<open>user_projects\<close>.\<close>

record project =
  p_project_dir :: string
  p_project_name :: string
  p_upload_time :: int
  p_chat_id :: int
  p_pinned :: bool
  p_main_files :: "string list"
  p_num_scripts :: nat

text \<open>
  An entry of \<open>waiting_for_main_file\<close>. The keys \<open>scripts_to_run\<close>, \<open>num_scripts\<close> and
  \<open>available_scripts\<close> are looked up with \<open>in\<close> or \<open>get\<close> by the source, so they are optional.
\<close>

record session =
  s_project_dir :: string
  s_project_name :: string
  s_chat_id :: int
  s_scripts_to_run :: "string list option"
  s_num_scripts :: "int option"
  s_available_scripts :: "string list option"

text \<open>
  Exceptions are values. Only the \<open>Exception\<close> hierarchy is modelled (every handler of the
  source is \<open>except Exception\<close> or wider); the string is the class of the exception.
\<close>

datatype exn = Exception string

datatype level = Info | Error | Critical

text \<open>
  Texts sent through the bot are abstracted to what they report; the exact wording and
  the keyboards play no role below.
\<close>

datatype notice =
    NoMainFiles
  | MissingFiles "string list"
  | FileNotFound string
  | NothingExecuted
  | Started string
  | StartFailed
  | Stopped string
  | StopFailed
  | NotRunning
  | InstallFailed
  | InstallTimeout
  | InstallError
  | Restarted string
  | RestartFailed string
  | Progress string
  | Outcome string bool
  | NotPaused
  | DurationSet string int
  | DurationRemoved string
  | DurationInactive
  | Deleted string
  | DeleteFailed
  | CallbackError
  | Cancelled
  | NeedTwoNames
  | ChooseDuration string "string list"

text \<open>Everything the controller does to the outside world is recorded, oldest first.\<close>

datatype event =
    Logged level
  | Slept nat
  | Sent int notice
  | SendFailed int notice
  | Terminated nat
  | Waited nat
  | Killed nat
  | Spawned nat string string
  | ReaderStarted nat
  | PipRun string
  | TreeRemoved string
  | MessageDeleted int

datatype pip_result = PipOk | PipNonZero | PipTimeout | PipCrash

text \<open>
  The two JSON files. Writing one can fail when it is opened (the old content stays) or
  while it is dumped (the file was truncated and is left unreadable).
\<close>

datatype 'a stored = NoFile | Unreadable | Stored 'a

datatype write_result = Written | OpenFailed | DumpFailed

text \<open>
  What the outside world answers. Every answer may depend on how many calls were made
  before (\<open>tick\<close>), the clock on how many times it was read (\<open>reads\<close>), so a theorem for all
  environments covers files that vanish between two checks, a gateway that fails for one
  chat only or for a while, and any passage of time.
\<close>

record env =
  clock :: "nat \<Rightarrow> int"
  gateway_ok :: "nat \<Rightarrow> int \<Rightarrow> bool"
  path_exists :: "nat \<Rightarrow> string \<Rightarrow> bool"
  path_isfile :: "nat \<Rightarrow> string \<Rightarrow> bool"
  abspath :: "string \<Rightarrow> string"
  pip :: "nat \<Rightarrow> string \<Rightarrow> pip_result"
  popen_ok :: "nat \<Rightarrow> string \<Rightarrow> bool"
  terminate_ok :: "nat \<Rightarrow> nat \<Rightarrow> bool"
  wait_ok :: "nat \<Rightarrow> nat \<Rightarrow> bool"
  kill_ok :: "nat \<Rightarrow> nat \<Rightarrow> bool"
  rmtree_ok :: "nat \<Rightarrow> string \<Rightarrow> bool"
  delete_message_ok :: "nat \<Rightarrow> int \<Rightarrow> bool"
  file_write :: "nat \<Rightarrow> write_result"

text \<open>
  The attributes of \<open>ProjectManager\<close> and \<open>UserManager\<close>, the two JSON files, and the
  counters and the record of effects.
\<close>

record world =
  allowed_users :: "int set"
  users_file :: "int set stored"
  running_processes :: "(string \<times> run_state) list"
  paused_processes :: "(string \<times> run_state) list"
  user_projects :: "(int \<times> project list) list"
  waiting_for_main_file :: "(int \<times> session) list"
  keep_running :: bool
  projects_file :: "(int \<times> project list) list stored"
  next_handle :: nat
  reads :: nat
  tick :: nat
  trace :: "event list"

section \<open>Statements that may raise\<close>

type_synonym 'a io = "world \<Rightarrow> (exn + 'a) \<times> world"

definition io_return :: "'a \<Rightarrow> 'a io" where
  "io_return v w = (Inr v, w)"

definition io_raise :: "exn \<Rightarrow> 'a io" where
  "io_raise e w = (Inl e, w)"

definition io_bind :: "'a io \<Rightarrow> ('a \<Rightarrow> 'b io) \<Rightarrow> 'b io" where
  "io_bind m k w = (case m w of (Inl e, w') \<Rightarrow> (Inl e, w') | (Inr v, w') \<Rightarrow> k v w')"

definition io_then :: "'a io \<Rightarrow> 'b io \<Rightarrow> 'b io" where
  "io_then m k = io_bind m (\<lambda>_. k)"

text \<open>\<open>try: m except Exception as e: h e\<close>; what \<open>m\<close> did before it raised stays done.\<close>

definition io_try :: "'a io \<Rightarrow> (exn \<Rightarrow> 'a io) \<Rightarrow> 'a io" where
  "io_try m h w = (case m w of (Inl e, w') \<Rightarrow> h e w' | (Inr v, w') \<Rightarrow> (Inr v, w'))"

definition io_get :: "(world \<Rightarrow> 'a) \<Rightarrow> 'a io" where
  "io_get f w = (Inr (f w), w)"

definition io_modify :: "(world \<Rightarrow> world) \<Rightarrow> unit io" where
  "io_modify f w = (Inr (), f w)"

text \<open>A \<open>for\<close> loop over a list, without and with a value built up on the way.\<close>

primrec io_foreach :: "'a list \<Rightarrow> ('a \<Rightarrow> unit io) \<Rightarrow> unit io" where
  "io_foreach [] f = io_return ()"
| "io_foreach (x # xs) f = io_then (f x) (io_foreach xs f)"

primrec io_foldl :: "'a list \<Rightarrow> ('b \<Rightarrow> 'a \<Rightarrow> 'b io) \<Rightarrow> 'b \<Rightarrow> 'b io" where
  "io_foldl [] f acc = io_return acc"
| "io_foldl (x # xs) f acc = io_bind (f acc x) (io_foldl xs f)"

definition record_event :: "event \<Rightarrow> world \<Rightarrow> world" where
  "record_event ev w = w\<lparr>trace := trace w @ [ev]\<rparr>"

definition logger :: "level \<Rightarrow> unit io" where
  "logger l = io_modify (record_event (Logged l))"

definition time_sleep :: "nat \<Rightarrow> unit io" where
  "time_sleep n = io_modify (record_event (Slept n))"

definition datetime_now :: "env \<Rightarrow> int io" where
  "datetime_now E w = (Inr (clock E (reads w)), w\<lparr>reads := Suc (reads w)\<rparr>)"

text \<open>
  Any call of the bot (\<open>send_message\<close>, \<open>edit_message_text\<close>, \<open>answer_callback_query\<close>,
  \<open>reply_to\<close>): it delivers, or it raises and nothing is delivered.
\<close>

definition bot_send :: "env \<Rightarrow> int \<Rightarrow> notice \<Rightarrow> unit io" where
  "bot_send E chat n w =
     (if gateway_ok E (tick w) chat
      then (Inr (), w\<lparr>tick := Suc (tick w), trace := trace w @ [Sent chat n]\<rparr>)
      else (Inl (Exception ''ApiException''),
            w\<lparr>tick := Suc (tick w), trace := trace w @ [SendFailed chat n]\<rparr>))"

definition os_path_exists :: "env \<Rightarrow> string \<Rightarrow> bool io" where
  "os_path_exists E p w = (Inr (path_exists E (tick w) p), w\<lparr>tick := Suc (tick w)\<rparr>)"

definition os_path_isfile :: "env \<Rightarrow> string \<Rightarrow> bool io" where
  "os_path_isfile E p w = (Inr (path_isfile E (tick w) p), w\<lparr>tick := Suc (tick w)\<rparr>)"

text \<open>\<open>posixpath.join\<close> for two components, \<open>basename\<close> and \<open>dirname\<close>.\<close>

definition os_path_join :: "string \<Rightarrow> string \<Rightarrow> string" where
  "os_path_join a b =
     (if b \<noteq> [] \<and> hd b = CHR ''/'' then b
      else if a = [] \<or> last a = CHR ''/'' then a @ b
      else a @ ''/'' @ b)"

definition os_path_basename :: "string \<Rightarrow> string" where
  "os_path_basename p = rev (takeWhile (\<lambda>c. c \<noteq> CHR ''/'') (rev p))"

definition os_path_dirname :: "string \<Rightarrow> string" where
  "os_path_dirname p =
     (let hd_part = rev (dropWhile (\<lambda>c. c \<noteq> CHR ''/'') (rev p)) in
      if hd_part \<noteq> [] \<and> list_ex (\<lambda>c. c \<noteq> CHR ''/'') hd_part
      then rev (dropWhile (\<lambda>c. c = CHR ''/'') (rev hd_part))
      else hd_part)"

section \<open>The retry decorator\<close>

text \<open>
  \<open>error_handler(func)\<close>, lines 67 to 84. The wrapper counts \<open>retries\<close> from 0; when the
  \<open>while\<close> condition fails a Python function returns \<open>None\<close>, so the wrapper's result is
  optional.
\<close>

function wrapper :: "nat \<Rightarrow> 'a io \<Rightarrow> 'a option io" where
  "wrapper retries func w =
     (if retries < 3 then
        (case func w of
           (Inr v, w') \<Rightarrow> (Inr (Some v), w')
         | (Inl e, w') \<Rightarrow>
             (let w1 = record_event (Logged Error) w'; retries' = retries + 1 in
              if retries' < 3
              then wrapper retries' func
                     (record_event (Slept 5) (record_event (Logged Info) w1))
              else (Inl e, record_event (Logged Critical) w1)))
      else (Inr None, w))"
  by pat_completeness auto
termination
  by (relation "measure (\<lambda>(retries, func, w). 3 - retries)") auto

definition error_handler :: "'a io \<Rightarrow> 'a option io" where
  "error_handler func = wrapper 0 func"

text \<open>What the wrapper adds to the world after a failed attempt that will be retried,
  and after the last one.\<close>

definition backoff :: "world \<Rightarrow> world" where
  "backoff w = record_event (Slept 5) (record_event (Logged Info) (record_event (Logged Error) w))"

definition give_up :: "world \<Rightarrow> world" where
  "give_up w = record_event (Logged Critical) (record_event (Logged Error) w)"

text \<open>Python truth of a wrapped function's result: \<open>None\<close> and \<open>False\<close> are false.\<close>

definition truthy :: "bool option \<Rightarrow> bool" where
  "truthy r = (r = Some True)"

text \<open>
  \<open>PythonHostingBot.run\<close>, lines 1140 to 1148: one round of its \<open>while True\<close> loop, and the
  first \<open>n\<close> rounds. \<open>polling\<close> stands for \<open>bot.polling\<close>, which belongs to the library.
\<close>

definition run_round :: "unit io \<Rightarrow> unit io" where
  "run_round polling =
     io_try polling
       (\<lambda>e. io_then (logger Error) (io_then (logger Info) (time_sleep 10)))"

primrec run_rounds :: "nat \<Rightarrow> unit io \<Rightarrow> unit io" where
  "run_rounds 0 polling = io_return ()"
| "run_rounds (Suc n) polling = io_then (run_round polling) (run_rounds n polling)"

section \<open>Configuration\<close>

definition ADMIN_IDS :: "int list" where
  "ADMIN_IDS = [7761577562]"

definition REQUIREMENTS_FILE :: string where
  "REQUIREMENTS_FILE = ''requirements.txt''"

definition GLOBAL_RESTART_INTERVAL :: nat where
  "GLOBAL_RESTART_INTERVAL = 3600"

text \<open>\<open>timedelta(days=1)\<close> in microseconds, and the \<open>days\<close> attribute of a \<open>timedelta\<close>:
  Python normalises a \<open>timedelta\<close> so that seconds and microseconds are not negative,
  which makes \<open>days\<close> the floor of the quotient.\<close>

definition DAY :: int where
  "DAY = 86400000000"

definition timedelta_days :: "int \<Rightarrow> int" where
  "timedelta_days us = us div DAY"

section \<open>UserManager\<close>

definition write_users :: "env \<Rightarrow> unit io" where
  "write_users E w =
     (case file_write E (tick w) of
        Written \<Rightarrow> (Inr (), w\<lparr>users_file := Stored (allowed_users w), tick := Suc (tick w)\<rparr>)
      | OpenFailed \<Rightarrow> (Inl (Exception ''OSError''), w\<lparr>tick := Suc (tick w)\<rparr>)
      | DumpFailed \<Rightarrow>
          (Inl (Exception ''OSError''), w\<lparr>users_file := Unreadable, tick := Suc (tick w)\<rparr>))"

definition load_allowed_users :: "unit io" where
  "load_allowed_users =
     io_bind (io_get users_file) (\<lambda>content.
       case content of
         NoFile \<Rightarrow> io_return ()
       | Unreadable \<Rightarrow> logger Error
       | Stored ids \<Rightarrow> io_modify (\<lambda>w. w\<lparr>allowed_users := allowed_users w \<union> ids\<rparr>))"

definition UserManager_init :: "unit io" where
  "UserManager_init =
     io_then (io_modify (\<lambda>w. w\<lparr>allowed_users := set ADMIN_IDS\<rparr>)) load_allowed_users"

definition save_allowed_users :: "env \<Rightarrow> unit io" where
  "save_allowed_users E = io_try (write_users E) (\<lambda>e. logger Error)"

definition add_user :: "env \<Rightarrow> int \<Rightarrow> unit io" where
  "add_user E uid =
     io_then (io_modify (\<lambda>w. w\<lparr>allowed_users := insert uid (allowed_users w)\<rparr>))
       (save_allowed_users E)"

definition remove_user :: "env \<Rightarrow> int \<Rightarrow> bool io" where
  "remove_user E uid =
     io_bind (io_get allowed_users) (\<lambda>allowed.
       if uid \<in> allowed \<and> uid \<notin> set ADMIN_IDS
       then io_then (io_modify (\<lambda>w. w\<lparr>allowed_users := allowed_users w - {uid}\<rparr>))
              (io_then (save_allowed_users E) (io_return True))
       else io_return False)"

definition is_allowed :: "world \<Rightarrow> int \<Rightarrow> bool" where
  "is_allowed w uid = (uid \<in> allowed_users w)"

text \<open>A sequence of calls of \<open>add_user\<close> and \<open>remove_user\<close>, results dropped.\<close>

datatype user_op = Add_user int | Remove_user int

fun user_op_step :: "env \<Rightarrow> user_op \<Rightarrow> unit io" where
  "user_op_step E (Add_user uid) = add_user E uid"
| "user_op_step E (Remove_user uid) = io_then (remove_user E uid) (io_return ())"

definition user_ops :: "env \<Rightarrow> user_op list \<Rightarrow> unit io" where
  "user_ops E ops = io_foreach ops (user_op_step E)"

section \<open>ProjectManager\<close>

definition write_projects :: "env \<Rightarrow> unit io" where
  "write_projects E w =
     (case file_write E (tick w) of
        Written \<Rightarrow> (Inr (), w\<lparr>projects_file := Stored (user_projects w), tick := Suc (tick w)\<rparr>)
      | OpenFailed \<Rightarrow> (Inl (Exception ''OSError''), w\<lparr>tick := Suc (tick w)\<rparr>)
      | DumpFailed \<Rightarrow>
          (Inl (Exception ''OSError''), w\<lparr>projects_file := Unreadable, tick := Suc (tick w)\<rparr>))"

definition save_user_projects :: "env \<Rightarrow> unit io" where
  "save_user_projects E = io_try (io_then (write_projects E) (logger Info)) (\<lambda>e. logger Error)"

definition load_user_projects :: "unit io" where
  "load_user_projects =
     io_bind (io_get projects_file) (\<lambda>content.
       case content of
         NoFile \<Rightarrow> io_return ()
       | Unreadable \<Rightarrow> logger Error
       | Stored ps \<Rightarrow> io_then (io_modify (\<lambda>w. w\<lparr>user_projects := ps\<rparr>)) (logger Info))"

text \<open>\<open>ProjectManager.__init__\<close>; the sweep thread it starts is \<open>global_restart_pass\<close> below.\<close>

definition ProjectManager_init :: "unit io" where
  "ProjectManager_init =
     io_then (io_modify (\<lambda>w. w\<lparr>running_processes := [], user_projects := [],
                paused_processes := [], waiting_for_main_file := [], keep_running := True\<rparr>))
       load_user_projects"

text \<open>The world before the controller starts, given the two files, and after
  \<open>PythonHostingBot.__init__\<close>.\<close>

definition blank_world :: "int set stored \<Rightarrow> (int \<times> project list) list stored \<Rightarrow> world" where
  "blank_world uf pf =
     \<lparr>allowed_users = {}, users_file = uf, running_processes = [], paused_processes = [],
      user_projects = [], waiting_for_main_file = [], keep_running = False,
      projects_file = pf, next_handle = 0, reads = 0, tick = 0, trace = []\<rparr>"

definition PythonHostingBot_init ::
  "int set stored \<Rightarrow> (int \<times> project list) list stored \<Rightarrow> world" where
  "PythonHostingBot_init uf pf = snd (io_then UserManager_init ProjectManager_init (blank_world uf pf))"

text \<open>\<open>get_user_id_by_chat_id\<close>: the first user, in dictionary order, one of whose projects
  has this chat.\<close>

definition get_user_id_by_chat_id :: "world \<Rightarrow> int \<Rightarrow> int option" where
  "get_user_id_by_chat_id w chat =
     map_option fst
       (List.find (\<lambda>entry. list_ex (\<lambda>p. p_chat_id p = chat) (snd entry)) (user_projects w))"

subsection \<open>install_requirements\<close>

definition pip_install :: "env \<Rightarrow> string \<Rightarrow> bool io" where
  "pip_install E req w =
     (let w' = w\<lparr>tick := Suc (tick w), trace := trace w @ [PipRun req]\<rparr> in
      case pip E (tick w) req of
        PipOk \<Rightarrow> (Inr True, w')
      | PipNonZero \<Rightarrow> (Inr False, w')
      | PipTimeout \<Rightarrow> (Inl (Exception ''TimeoutExpired''), w')
      | PipCrash \<Rightarrow> (Inl (Exception ''OSError''), w'))"

definition install_requirements_body :: "env \<Rightarrow> string \<Rightarrow> int \<Rightarrow> bool io" where
  "install_requirements_body E dir chat =
     (let requirements_path = os_path_join dir REQUIREMENTS_FILE in
      io_bind (os_path_exists E requirements_path) (\<lambda>present.
        if present then
          io_try
            (io_then (logger Info)
              (io_bind (pip_install E requirements_path) (\<lambda>returncode_zero.
                 if \<not> returncode_zero
                 then io_then (bot_send E chat InstallFailed)
                        (io_then (logger Error) (io_return False))
                 else io_then (logger Info) (io_return True))))
            (\<lambda>e. if e = Exception ''TimeoutExpired''
                 then io_then (bot_send E chat InstallTimeout)
                        (io_then (logger Error) (io_return False))
                 else io_then (bot_send E chat InstallError)
                        (io_then (logger Error) (io_return False)))
        else io_return True))"

definition install_requirements :: "env \<Rightarrow> string \<Rightarrow> int \<Rightarrow> bool option io" where
  "install_requirements E dir chat = error_handler (install_requirements_body E dir chat)"

subsection \<open>run_project\<close>

text \<open>Lines 281 to 285: the main files of the persisted project of this user and directory.\<close>

definition lookup_main_files :: "world \<Rightarrow> int option \<Rightarrow> string \<Rightarrow> string list" where
  "lookup_main_files w uid dir =
     (case uid of
        None \<Rightarrow> []
      | Some u \<Rightarrow>
          (case map_of (user_projects w) u of
             None \<Rightarrow> []
           | Some ps \<Rightarrow>
               (case List.find (\<lambda>p. p_project_dir p = dir) ps of
                  None \<Rightarrow> []
                | Some p \<Rightarrow> p_main_files p)))"

text \<open>Lines 288 to 305, entered when the lookup above gave nothing: the scripts of the
  pending onboarding session of the user, which are then persisted as a new project.\<close>

definition session_scripts :: "world \<Rightarrow> int option \<Rightarrow> string list" where
  "session_scripts w uid =
     (case uid of
        None \<Rightarrow> []
      | Some u \<Rightarrow>
          (case map_of (waiting_for_main_file w) u of
             None \<Rightarrow> []
           | Some s \<Rightarrow> (case s_scripts_to_run s of None \<Rightarrow> [] | Some fs \<Rightarrow> fs)))"

definition persist_project :: "env \<Rightarrow> string \<Rightarrow> int \<Rightarrow> int \<Rightarrow> string list \<Rightarrow> unit io" where
  "persist_project E dir chat u files =
     io_then
       (io_modify (\<lambda>w. if map_of (user_projects w) u = None
                       then w\<lparr>user_projects := AList.update u [] (user_projects w)\<rparr> else w))
       (io_bind (io_get (\<lambda>w. map_of (user_projects w) u)) (\<lambda>mine.
          case mine of
            None \<Rightarrow> io_return ()
          | Some ps \<Rightarrow>
              io_bind (datetime_now E) (\<lambda>now.
                io_then
                  (io_modify (\<lambda>w. w\<lparr>user_projects :=
                     AList.update u
                       (ps @ [\<lparr>p_project_dir = dir, p_project_name = os_path_basename dir,
                               p_upload_time = now, p_chat_id = chat, p_pinned = False,
                               p_main_files = files,
                               p_num_scripts = length files\<rparr>])
                       (user_projects w)\<rparr>))
                  (save_user_projects E))))"

definition resolve_main_files :: "env \<Rightarrow> string \<Rightarrow> int \<Rightarrow> (int option \<times> string list) io" where
  "resolve_main_files E dir chat =
     io_bind (io_get (\<lambda>w. get_user_id_by_chat_id w chat)) (\<lambda>uid.
     io_bind (io_get (\<lambda>w. lookup_main_files w uid dir)) (\<lambda>found.
       if found \<noteq> [] then io_return (uid, found)
       else
         io_bind (io_get (\<lambda>w. session_scripts w uid)) (\<lambda>files.
           case uid of
             None \<Rightarrow> io_return (uid, files)
           | Some u \<Rightarrow>
               if files \<noteq> []
               then io_then (persist_project E dir chat u files)
                      (io_return (uid, files))
               else io_return (uid, files))))"

text \<open>Line 313: \<open>[f for f in main_files if not os.path.exists(f)]\<close>.\<close>

definition missing_files :: "env \<Rightarrow> string list \<Rightarrow> string list io" where
  "missing_files E files =
     io_foldl files
       (\<lambda>missing f. io_bind (os_path_exists E f)
          (\<lambda>present. io_return (if present then missing else missing @ [f])))
       []"

definition popen :: "env \<Rightarrow> string \<Rightarrow> string \<Rightarrow> nat io" where
  "popen E script cwd w =
     (if popen_ok E (tick w) script
      then (Inr (next_handle w),
            w\<lparr>next_handle := Suc (next_handle w), tick := Suc (tick w),
              trace := trace w @ [Spawned (next_handle w) script cwd]\<rparr>)
      else (Inl (Exception ''OSError''), w\<lparr>tick := Suc (tick w)\<rparr>))"

text \<open>Lines 327 to 343, the body of the loop over the main files; \<open>continue\<close> keeps the
  list of processes as it is.\<close>

definition launch :: "env \<Rightarrow> string \<Rightarrow> int \<Rightarrow> nat list \<Rightarrow> string \<Rightarrow> nat list io" where
  "launch E dir chat procs main_file =
     (let abs_main_file = abspath E main_file in
      io_bind (os_path_isfile E abs_main_file) (\<lambda>is_file.
        if \<not> is_file
        then io_then (bot_send E chat (FileNotFound abs_main_file))
               (io_then (logger Error) (io_return procs))
        else
          io_bind (popen E abs_main_file
                     (if os_path_dirname abs_main_file = [] then dir
                      else os_path_dirname abs_main_file))
            (\<lambda>process. io_return (procs @ [process]))))"

text \<open>\<open>start_output_reader\<close> starts a thread per process. The thread reads the pipes of its
  process and sends what it finds; it does not touch the registries and is not followed
  further.\<close>

definition start_output_reader :: "nat \<Rightarrow> unit option io" where
  "start_output_reader process = error_handler (io_modify (record_event (ReaderStarted process)))"

text \<open>Line 362: a duration of \<open>None\<close> or \<open>0\<close> is false in Python.\<close>

definition compute_end_time :: "env \<Rightarrow> int option \<Rightarrow> int option io" where
  "compute_end_time E duration_days =
     (case duration_days of
        None \<Rightarrow> io_return None
      | Some n \<Rightarrow>
          if n \<noteq> 0 then io_bind (datetime_now E) (\<lambda>now. io_return (Some (now + n * DAY)))
          else io_return None)"

text \<open>Lines 364 to 377.\<close>

definition register :: "string \<Rightarrow> run_state \<Rightarrow> unit io" where
  "register dir info =
     io_then
       (io_modify (\<lambda>w. w\<lparr>running_processes := AList.update dir info (running_processes w)\<rparr>))
       (io_bind (io_get (\<lambda>w. map_of (paused_processes w) dir)) (\<lambda>paused.
          if paused \<noteq> None
          then io_modify (\<lambda>w. w\<lparr>paused_processes := AList.delete dir (paused_processes w)\<rparr>)
          else io_return ()))"

text \<open>Lines 356 to 381, what follows the loop over the main files.\<close>

definition finish_launch ::
  "env \<Rightarrow> string \<Rightarrow> int \<Rightarrow> int option \<Rightarrow> bool \<Rightarrow> int option \<Rightarrow> string list \<Rightarrow> nat list
   \<Rightarrow> bool io" where
  "finish_launch E dir chat duration_days auto_restart' uid files procs =
     (if procs = []
      then io_then (bot_send E chat NothingExecuted) (io_return False)
      else
        io_bind (compute_end_time E duration_days) (\<lambda>end_time'.
        io_bind (datetime_now E) (\<lambda>now.
          io_then
            (register dir
               \<lparr>processes = procs, chat_id = chat, start_time = now, end_time = end_time',
                project_name = os_path_basename dir, user_id = uid, pinned = False,
                main_files = files, auto_restart = auto_restart'\<rparr>)
            (io_then
               (io_foreach procs
                  (\<lambda>process. io_then (start_output_reader process) (io_return ())))
               (io_then (logger Info)
                  (io_then (bot_send E chat (Started (os_path_basename dir)))
                     (io_return True)))))))"

text \<open>Lines 323 to 384, the body of the \<open>try\<close>.\<close>

definition launch_all ::
  "env \<Rightarrow> string \<Rightarrow> int \<Rightarrow> int option \<Rightarrow> bool \<Rightarrow> int option \<Rightarrow> string list \<Rightarrow> bool io" where
  "launch_all E dir chat duration_days auto_restart' uid files =
     io_then (logger Info)
       (io_bind (io_foldl files (launch E dir chat) [])
          (finish_launch E dir chat duration_days auto_restart' uid files))"

definition run_project_body ::
  "env \<Rightarrow> string \<Rightarrow> int \<Rightarrow> int option \<Rightarrow> bool \<Rightarrow> bool io" where
  "run_project_body E dir chat duration_days auto_restart' =
     io_bind (resolve_main_files E dir chat) (\<lambda>(uid, files).
       if files = []
       then io_then (bot_send E chat NoMainFiles) (io_then (logger Error) (io_return False))
       else
         io_bind (missing_files E files) (\<lambda>missing.
           if missing \<noteq> []
           then io_then (bot_send E chat (MissingFiles missing))
                  (io_then (logger Error) (io_return False))
           else
             io_bind (install_requirements E dir chat) (\<lambda>installed.
               if \<not> truthy installed then io_return False
               else
                 io_try (launch_all E dir chat duration_days auto_restart' uid files)
                   (\<lambda>e. io_then (bot_send E chat StartFailed)
                          (io_then (logger Error) (io_return False))))))"

definition run_project ::
  "env \<Rightarrow> string \<Rightarrow> int \<Rightarrow> int option \<Rightarrow> bool \<Rightarrow> bool option io" where
  "run_project E dir chat duration_days auto_restart' =
     error_handler (run_project_body E dir chat duration_days auto_restart')"

subsection \<open>stop_project\<close>

definition proc_terminate :: "env \<Rightarrow> nat \<Rightarrow> unit io" where
  "proc_terminate E process w =
     (if terminate_ok E (tick w) process
      then (Inr (), w\<lparr>tick := Suc (tick w), trace := trace w @ [Terminated process]\<rparr>)
      else (Inl (Exception ''OSError''), w\<lparr>tick := Suc (tick w)\<rparr>))"

definition proc_wait :: "env \<Rightarrow> nat \<Rightarrow> unit io" where
  "proc_wait E process w =
     (if wait_ok E (tick w) process
      then (Inr (), w\<lparr>tick := Suc (tick w), trace := trace w @ [Waited process]\<rparr>)
      else (Inl (Exception ''TimeoutExpired''), w\<lparr>tick := Suc (tick w)\<rparr>))"

definition proc_kill :: "env \<Rightarrow> nat \<Rightarrow> unit io" where
  "proc_kill E process w =
     (if kill_ok E (tick w) process
      then (Inr (), w\<lparr>tick := Suc (tick w), trace := trace w @ [Killed process]\<rparr>)
      else (Inl (Exception ''OSError''), w\<lparr>tick := Suc (tick w)\<rparr>))"

text \<open>Lines 428 to 436.\<close>

definition stop_process :: "env \<Rightarrow> nat \<Rightarrow> unit io" where
  "stop_process E process =
     io_try (io_then (proc_terminate E process) (proc_wait E process))
       (\<lambda>e. io_then (logger Error) (io_try (proc_kill E process) (\<lambda>e'. io_return ())))"

text \<open>\<open>del self.running_processes[project_dir]\<close> raises \<open>KeyError\<close> for a missing key.\<close>

definition del_running :: "string \<Rightarrow> unit io" where
  "del_running dir =
     io_bind (io_get (\<lambda>w. map_of (running_processes w) dir)) (\<lambda>entry.
       case entry of
         None \<Rightarrow> io_raise (Exception ''KeyError'')
       | Some info \<Rightarrow>
           io_modify (\<lambda>w. w\<lparr>running_processes := AList.delete dir (running_processes w)\<rparr>))"

text \<open>Lines 446 to 449.\<close>

definition unregister :: "string \<Rightarrow> run_state \<Rightarrow> bool \<Rightarrow> unit io" where
  "unregister dir process_info pause =
     io_then
       (if pause
        then io_modify (\<lambda>w. w\<lparr>paused_processes :=
               AList.update dir process_info (paused_processes w)\<rparr>)
        else io_return ())
       (del_running dir)"

definition stop_project_body :: "env \<Rightarrow> string \<Rightarrow> int \<Rightarrow> bool \<Rightarrow> bool io" where
  "stop_project_body E dir chat pause =
     io_bind (io_get (\<lambda>w. map_of (running_processes w) dir)) (\<lambda>entry.
       case entry of
         None \<Rightarrow> io_then (bot_send E chat NotRunning) (io_return False)
       | Some process_info \<Rightarrow>
           io_try
             (io_then (logger Info)
               (io_then (io_foreach (processes process_info) (stop_process E))
                 (io_then (unregister dir process_info pause)
                    (io_then
                       (if \<not> pause
                        then io_then (bot_send E chat (Stopped (os_path_basename dir)))
                               (logger Info)
                        else io_return ())
                       (io_return True)))))
             (\<lambda>e. io_then (bot_send E chat StopFailed)
                    (io_then (logger Error) (io_return False))))"

definition stop_project :: "env \<Rightarrow> string \<Rightarrow> int \<Rightarrow> bool \<Rightarrow> bool option io" where
  "stop_project E dir chat pause = error_handler (stop_project_body E dir chat pause)"

subsection \<open>The periodic sweep\<close>

text \<open>Lines 226 and 1019: the whole days left until \<open>end_time\<close>, if there is one.\<close>

definition remaining_days :: "env \<Rightarrow> int option \<Rightarrow> int option io" where
  "remaining_days E end_time' =
     (case end_time' of
        None \<Rightarrow> io_return None
      | Some e \<Rightarrow> io_bind (datetime_now E) (\<lambda>now. io_return (Some (timedelta_days (e - now)))))"

text \<open>Lines 215 to 232, the body of the loop over the snapshot of the running registry.\<close>

definition restart_entry :: "env \<Rightarrow> string \<times> run_state \<Rightarrow> unit io" where
  "restart_entry E item =
     (let project_dir = fst item; process_info = snd item in
      if \<not> auto_restart process_info then io_return ()
      else
        io_try
          (io_then (stop_project E project_dir (chat_id process_info) False)
            (io_bind (remaining_days E (end_time process_info)) (\<lambda>duration_days.
               io_then
                 (run_project E project_dir (chat_id process_info) duration_days
                    (auto_restart process_info))
                 (io_then (logger Info)
                    (bot_send E (chat_id process_info)
                       (Restarted (project_name process_info)))))))
          (\<lambda>e. io_then (logger Error)
                 (bot_send E (chat_id process_info) (RestartFailed (project_name process_info)))))"

text \<open>Lines 206 to 237, one round of the \<open>while self.keep_running\<close> loop.\<close>

definition global_restart_pass :: "env \<Rightarrow> unit io" where
  "global_restart_pass E =
     io_try
       (io_then (time_sleep GLOBAL_RESTART_INTERVAL)
         (io_bind (io_get running_processes) (\<lambda>snapshot.
            if snapshot = [] then io_return ()
            else io_then (logger Info)
                   (io_then (io_foreach snapshot (restart_entry E)) (logger Info)))))
       (\<lambda>e. io_then (logger Error) (time_sleep 30))"

definition cleanup :: "env \<Rightarrow> unit io" where
  "cleanup E =
     io_then (io_modify (\<lambda>w. w\<lparr>keep_running := False\<rparr>))
       (io_bind (io_get (\<lambda>w. map fst (running_processes w))) (\<lambda>dirs.
          io_then
            (io_foreach dirs (\<lambda>dir.
               io_bind (io_get (\<lambda>w. map_of (running_processes w) dir)) (\<lambda>entry.
                 case entry of
                   None \<Rightarrow> io_raise (Exception ''KeyError'')
                 | Some info \<Rightarrow> io_then (stop_project E dir (chat_id info) False) (io_return ()))))
            (logger Info)))"

section \<open>Handlers of PythonHostingBot\<close>

subsection \<open>Strings\<close>

text \<open>
  Characters are bytes here. Of Python's white space only the ASCII part is modelled
  (tab to carriage return, the four separators 28 to 31, and the space), and \<open>int\<close>
  reads ASCII digits only.
\<close>

definition is_space :: "char \<Rightarrow> bool" where
  "is_space c = (let n = (of_char c :: nat) in (9 \<le> n \<and> n \<le> 13) \<or> (28 \<le> n \<and> n \<le> 32))"

definition is_digit :: "char \<Rightarrow> bool" where
  "is_digit c = (let n = (of_char c :: nat) in 48 \<le> n \<and> n \<le> 57)"

definition strip :: "string \<Rightarrow> string" where
  "strip s = rev (dropWhile is_space (rev (dropWhile is_space s)))"

text \<open>\<open>s.split()\<close>: the maximal runs of characters that are not white space.\<close>

fun split_ws :: "string \<Rightarrow> string \<Rightarrow> string list" where
  "split_ws cur [] = (if cur = [] then [] else [cur])"
| "split_ws cur (c # cs) =
     (if is_space c then (if cur = [] then split_ws [] cs else cur # split_ws [] cs)
      else split_ws (cur @ [c]) cs)"

definition py_split :: "string \<Rightarrow> string list" where
  "py_split s = split_ws [] (strip s)"

text \<open>\<open>s.split(sep)\<close> for a separator of one character, and \<open>sep.join(parts)\<close>.\<close>

fun split_on :: "char \<Rightarrow> string \<Rightarrow> string \<Rightarrow> string list" where
  "split_on sep cur [] = [cur]"
| "split_on sep cur (c # cs) =
     (if c = sep then cur # split_on sep [] cs else split_on sep (cur @ [c]) cs)"

fun join_with :: "string \<Rightarrow> string list \<Rightarrow> string" where
  "join_with sep [] = []"
| "join_with sep [x] = x"
| "join_with sep (x # y # ys) = x @ sep @ join_with sep (y # ys)"

definition py_int :: "string \<Rightarrow> int option" where
  "py_int s =
     (let t = strip s;
          negative = (t \<noteq> [] \<and> hd t = CHR ''-'');
          ds = (if t \<noteq> [] \<and> (hd t = CHR ''-'' \<or> hd t = CHR ''+'') then tl t else t)
      in if ds = [] \<or> \<not> list_all is_digit ds then None
         else
           (let n = int (foldl (\<lambda>acc c. 10 * acc + ((of_char c :: nat) - 48)) 0 ds)
            in Some (if negative then - n else n)))"

definition startswith :: "string \<Rightarrow> string \<Rightarrow> bool" where
  "startswith s p = (take (length p) s = p)"

text \<open>\<open>data.split('_', 1)[1]\<close>, used only after a test that \<open>data\<close> starts with a prefix
  that holds an underscore.\<close>

definition after_underscore :: "string \<Rightarrow> string" where
  "after_underscore s = drop 1 (dropWhile (\<lambda>c. c \<noteq> CHR ''_'') s)"

subsection \<open>handle_two_scripts_names\<close>

record message =
  msg_from :: int
  msg_chat :: int
  msg_text :: string

definition shutil_rmtree :: "env \<Rightarrow> string \<Rightarrow> unit io" where
  "shutil_rmtree E dir w =
     (if rmtree_ok E (tick w) dir
      then (Inr (), w\<lparr>tick := Suc (tick w), trace := trace w @ [TreeRemoved dir]\<rparr>)
      else (Inl (Exception ''OSError''), w\<lparr>tick := Suc (tick w)\<rparr>))"

text \<open>The filter the handler is registered with, lines 802 to 804.\<close>

definition two_scripts_filter :: "world \<Rightarrow> message \<Rightarrow> bool" where
  "two_scripts_filter w m =
     (case map_of (waiting_for_main_file w) (msg_from m) of
        None \<Rightarrow> False
      | Some s \<Rightarrow> s_num_scripts s = Some 2)"

text \<open>Lines 838 to 843, the body of the loop over the names.\<close>

definition check_script ::
  "env \<Rightarrow> string \<Rightarrow> string list \<times> string list \<Rightarrow> string \<Rightarrow> (string list \<times> string list) io" where
  "check_script E project_dir seen script_name =
     (let script_path = os_path_join project_dir script_name in
      io_bind (os_path_exists E script_path) (\<lambda>present.
        io_return (if \<not> present then (fst seen @ [script_name], snd seen)
                   else (fst seen, snd seen @ [script_path]))))"

definition set_scripts_to_run :: "int \<Rightarrow> string list \<Rightarrow> unit io" where
  "set_scripts_to_run uid files =
     io_bind (io_get (\<lambda>w. map_of (waiting_for_main_file w) uid)) (\<lambda>entry.
       case entry of
         None \<Rightarrow> io_raise (Exception ''KeyError'')
       | Some s \<Rightarrow>
           io_modify (\<lambda>w. w\<lparr>waiting_for_main_file :=
             AList.update uid (s\<lparr>s_scripts_to_run := Some files\<rparr>) (waiting_for_main_file w)\<rparr>))"

definition handle_two_scripts_names_body :: "env \<Rightarrow> message \<Rightarrow> unit io" where
  "handle_two_scripts_names_body E m =
     (if msg_text m = ''/cancel'' then
        io_bind (io_get (\<lambda>w. map_of (waiting_for_main_file w) (msg_from m))) (\<lambda>entry.
          case entry of
            None \<Rightarrow> io_raise (Exception ''KeyError'')
          | Some user_data \<Rightarrow>
              io_then
                (io_modify (\<lambda>w. w\<lparr>waiting_for_main_file :=
                   AList.delete (msg_from m) (waiting_for_main_file w)\<rparr>))
                (io_try
                   (io_then (shutil_rmtree E (s_project_dir user_data))
                      (io_then (bot_send E (msg_chat m) Cancelled) (logger Info)))
                   (\<lambda>e. io_then (bot_send E (msg_chat m) DeleteFailed) (logger Error))))
      else
        io_bind (io_get (\<lambda>w. map_of (waiting_for_main_file w) (msg_from m))) (\<lambda>entry.
          case entry of
            None \<Rightarrow> io_raise (Exception ''KeyError'')
          | Some user_data \<Rightarrow>
              (let project_dir = s_project_dir user_data;
                   script_names = py_split (msg_text m)
               in
               if length script_names \<noteq> 2 then bot_send E (msg_chat m) NeedTwoNames
               else
                 io_bind (io_foldl script_names (check_script E project_dir) ([], []))
                   (\<lambda>seen.
                      if fst seen \<noteq> []
                      then bot_send E (msg_chat m) (MissingFiles (fst seen))
                      else
                        io_then (set_scripts_to_run (msg_from m) (snd seen))
                          (bot_send E (msg_chat m)
                             (ChooseDuration (s_project_name user_data) script_names))))))"

definition handle_two_scripts_names :: "env \<Rightarrow> message \<Rightarrow> unit option io" where
  "handle_two_scripts_names E m = error_handler (handle_two_scripts_names_body E m)"

subsection \<open>handle_callbacks\<close>

record callback =
  cb_data :: string
  cb_chat :: int

definition bot_delete_message :: "env \<Rightarrow> int \<Rightarrow> unit io" where
  "bot_delete_message E chat w =
     (if delete_message_ok E (tick w) chat
      then (Inr (), w\<lparr>tick := Suc (tick w), trace := trace w @ [MessageDeleted chat]\<rparr>)
      else (Inl (Exception ''ApiException''), w\<lparr>tick := Suc (tick w)\<rparr>))"

text \<open>Lines 934 to 950.\<close>

definition on_run :: "env \<Rightarrow> string \<Rightarrow> int \<Rightarrow> unit io" where
  "on_run E dir chat =
     io_then (bot_send E chat (Progress ''starting''))
       (io_bind (run_project E dir chat None True) (\<lambda>success.
          if \<not> truthy success then bot_send E chat (Outcome ''start'' False)
          else io_return ()))"

text \<open>Lines 952 to 976 with \<open>pause = False\<close>, lines 978 to 1002 with \<open>pause = True\<close>.\<close>

definition on_stop :: "env \<Rightarrow> string \<Rightarrow> int \<Rightarrow> bool \<Rightarrow> unit io" where
  "on_stop E dir chat pause =
     io_then (bot_send E chat (Progress (if pause then ''pausing'' else ''stopping'')))
       (io_bind (stop_project E dir chat pause) (\<lambda>success.
          if truthy success
          then io_then (bot_send E chat (Outcome (if pause then ''pause'' else ''stop'') True))
                 (logger Info)
          else bot_send E chat (Outcome (if pause then ''pause'' else ''stop'') False)))"

text \<open>Lines 1004 to 1040.\<close>

definition on_resume :: "env \<Rightarrow> string \<Rightarrow> int \<Rightarrow> unit io" where
  "on_resume E dir chat =
     io_then (bot_send E chat (Progress ''resuming''))
       (io_bind (io_get (\<lambda>w. map_of (paused_processes w) dir)) (\<lambda>entry.
          case entry of
            None \<Rightarrow> bot_send E chat NotPaused
          | Some process_info \<Rightarrow>
              io_bind (remaining_days E (end_time process_info)) (\<lambda>duration_days.
              io_bind (run_project E dir (chat_id process_info) duration_days True) (\<lambda>success.
                if truthy success
                then io_then (bot_send E chat (Outcome ''resume'' True)) (logger Info)
                else bot_send E chat (Outcome ''resume'' False)))))"

text \<open>Lines 1042 to 1069.\<close>

definition on_restart :: "env \<Rightarrow> string \<Rightarrow> int \<Rightarrow> unit io" where
  "on_restart E dir chat =
     io_then (bot_send E chat (Progress ''restarting''))
       (io_bind (io_get (\<lambda>w. map_of (running_processes w) dir)) (\<lambda>entry.
          io_then
            (if entry \<noteq> None then io_then (stop_project E dir chat False) (io_return ())
             else io_return ())
            (io_bind (run_project E dir chat None True) (\<lambda>success.
               if truthy success
               then io_then (bot_send E chat (Outcome ''restart'' True)) (logger Info)
               else bot_send E chat (Outcome ''restart'' False)))))"

text \<open>Lines 1071 to 1096.\<close>

definition set_end_time :: "string \<Rightarrow> int option \<Rightarrow> unit io" where
  "set_end_time dir e =
     io_bind (io_get (\<lambda>w. map_of (running_processes w) dir)) (\<lambda>entry.
       case entry of
         None \<Rightarrow> io_raise (Exception ''KeyError'')
       | Some info \<Rightarrow>
           io_modify (\<lambda>w. w\<lparr>running_processes :=
             AList.update dir (info\<lparr>end_time := e\<rparr>) (running_processes w)\<rparr>))"

definition on_duration_set :: "env \<Rightarrow> string \<Rightarrow> int \<Rightarrow> unit io" where
  "on_duration_set E data chat =
     (let parts = split_on CHR ''_'' [] data in
      if length parts \<le> 2 then io_raise (Exception ''IndexError'')
      else
      case py_int (parts ! 2) of
        None \<Rightarrow> io_raise (Exception ''ValueError'')
      | Some days \<Rightarrow>
          (let dir = join_with ''_'' (drop 3 parts) in
           io_bind (io_get (\<lambda>w. map_of (running_processes w) dir)) (\<lambda>entry.
             if entry \<noteq> None then
               io_then
                 (if days > 0
                  then io_bind (datetime_now E) (\<lambda>now. set_end_time dir (Some (now + days * DAY)))
                  else set_end_time dir None)
                 (io_then
                    (bot_send E chat
                       (if days > 0 then DurationSet (os_path_basename dir) days
                        else DurationRemoved (os_path_basename dir)))
                    (logger Info))
             else bot_send E chat DurationInactive)))"

text \<open>Lines 1098 to 1127.\<close>

definition forget_project :: "env \<Rightarrow> string \<Rightarrow> int \<Rightarrow> unit io" where
  "forget_project E dir chat =
     io_bind (io_get (\<lambda>w. get_user_id_by_chat_id w chat)) (\<lambda>uid.
       case uid of
         None \<Rightarrow> io_return ()
       | Some u \<Rightarrow>
           if u = 0 then io_return ()
           else
             io_bind (io_get (\<lambda>w. map_of (user_projects w) u)) (\<lambda>mine.
               case mine of
                 None \<Rightarrow> io_return ()
               | Some ps \<Rightarrow>
                   io_then
                     (io_modify (\<lambda>w. w\<lparr>user_projects :=
                        AList.update u (filter (\<lambda>p. p_project_dir p \<noteq> dir) ps)
                          (user_projects w)\<rparr>))
                     (save_user_projects E)))"

definition on_delete :: "env \<Rightarrow> string \<Rightarrow> int \<Rightarrow> unit io" where
  "on_delete E dir chat =
     io_then (forget_project E dir chat)
       (io_bind (io_get (\<lambda>w. map_of (running_processes w) dir)) (\<lambda>running.
          io_then
            (if running \<noteq> None then io_then (stop_project E dir chat False) (io_return ())
             else io_return ())
            (io_bind (io_get (\<lambda>w. map_of (paused_processes w) dir)) (\<lambda>paused.
               io_then
                 (if paused \<noteq> None
                  then io_modify (\<lambda>w. w\<lparr>paused_processes :=
                         AList.delete dir (paused_processes w)\<rparr>)
                  else io_return ())
                 (io_try
                    (io_then (shutil_rmtree E dir)
                       (io_then (bot_send E chat (Deleted (os_path_basename dir)))
                          (logger Info)))
                    (\<lambda>e. io_then (bot_send E chat DeleteFailed) (logger Error)))))))"

text \<open>Lines 932 to 1137: the chain of tests on \<open>call.data\<close> inside the \<open>try\<close>.\<close>

definition handle_callbacks_body :: "env \<Rightarrow> callback \<Rightarrow> unit io" where
  "handle_callbacks_body E call =
     (let data = cb_data call; chat = cb_chat call in
      io_try
        (if startswith data ''run_'' then on_run E (after_underscore data) chat
         else if startswith data ''stop_'' then on_stop E (after_underscore data) chat False
         else if startswith data ''pause_'' then on_stop E (after_underscore data) chat True
         else if startswith data ''resume_'' then on_resume E (after_underscore data) chat
         else if startswith data ''restart_'' then on_restart E (after_underscore data) chat
         else if startswith data ''duration_set_'' then on_duration_set E data chat
         else if startswith data ''delete_'' then on_delete E (after_underscore data) chat
         else if data = ''cancel_selection'' then bot_delete_message E chat
         else io_return ())
        (\<lambda>e. io_then (logger Error) (bot_send E chat CallbackError)))"

definition handle_callbacks :: "env \<Rightarrow> callback \<Rightarrow> unit option io" where
  "handle_callbacks E call = error_handler (handle_callbacks_body E call)"

section \<open>Example environments and worlds\<close>

text \<open>An environment in which every outside call succeeds and the clock advances by one
  second per reading, and the same with the gateway refusing every message to chat 1.\<close>

definition calm :: env where
  "calm = \<lparr>clock = (\<lambda>n. 1000000 * int n), gateway_ok = (\<lambda>t chat. True),
     path_exists = (\<lambda>t p. True), path_isfile = (\<lambda>t p. True), abspath = (\<lambda>p. ''/srv/'' @ p),
     pip = (\<lambda>t p. PipOk), popen_ok = (\<lambda>t p. True), terminate_ok = (\<lambda>t h. True),
     wait_ok = (\<lambda>t h. True), kill_ok = (\<lambda>t h. True), rmtree_ok = (\<lambda>t p. True),
     delete_message_ok = (\<lambda>t c. True), file_write = (\<lambda>t. Written)\<rparr>"

definition chat1_blocked :: env where
  "chat1_blocked = calm\<lparr>gateway_ok := (\<lambda>t chat. chat \<noteq> 1)\<rparr>"

definition started :: world where
  "started = PythonHostingBot_init NoFile NoFile"


text \<open>A world with one project that runs, with an end time of 50000 seconds, and the
  persisted entry of the project.\<close>

definition demo_info :: run_state where
  "demo_info =
     \<lparr>processes = [0], chat_id = 1, start_time = 0, end_time = Some 50000000000,
      project_name = ''a'', user_id = Some 1, pinned = False,
      main_files = [''projects/1/a/main.py''], auto_restart = True\<rparr>"

definition demo_project :: project where
  "demo_project =
     \<lparr>p_project_dir = ''projects/1/a'', p_project_name = ''a'', p_upload_time = 0,
      p_chat_id = 1, p_pinned = False, p_main_files = [''projects/1/a/main.py''],
      p_num_scripts = 1\<rparr>"

definition one_running :: world where
  "one_running =
     \<lparr>allowed_users = {1, 7761577562}, users_file = NoFile,
      running_processes = [(''projects/1/a'', demo_info)], paused_processes = [],
      user_projects = [(1, [demo_project])], waiting_for_main_file = [],
      keep_running = True, projects_file = NoFile, next_handle = 1, reads = 0, tick = 0,
      trace = []\<rparr>"
section \<open>Assertions about statements\<close>

text \<open>
  \<open>stays R m\<close>: whatever \<open>m\<close> does and however it ends, by returning or by raising, the
  world after it is related by \<open>R\<close> to the world before.
\<close>

definition stays :: "(world \<Rightarrow> world \<Rightarrow> bool) \<Rightarrow> 'a io \<Rightarrow> bool" where
  "stays R m = (\<forall>w. R w (snd (m w)))"

text \<open>Only the counters and the record of effects differ.\<close>

definition quiet_rel :: "world \<Rightarrow> world \<Rightarrow> bool" where
  "quiet_rel w w' =
     (allowed_users w' = allowed_users w \<and> users_file w' = users_file w
      \<and> running_processes w' = running_processes w
      \<and> paused_processes w' = paused_processes w
      \<and> user_projects w' = user_projects w
      \<and> waiting_for_main_file w' = waiting_for_main_file w
      \<and> keep_running w' = keep_running w \<and> projects_file w' = projects_file w
      \<and> next_handle w' = next_handle w)"

text \<open>The two registries are the same, and no process handle was given back.\<close>

definition regs_rel :: "world \<Rightarrow> world \<Rightarrow> bool" where
  "regs_rel w w' =
     (running_processes w' = running_processes w \<and> paused_processes w' = paused_processes w
      \<and> next_handle w \<le> next_handle w')"

text \<open>A transitive relation that holds whenever the registries are left alone.\<close>

definition lax :: "(world \<Rightarrow> world \<Rightarrow> bool) \<Rightarrow> bool" where
  "lax R = ((\<forall>a b c. R a b \<and> R b c \<longrightarrow> R a c) \<and> (\<forall>w w'. regs_rel w w' \<longrightarrow> R w w'))"

text \<open>No project directory is a key of both registries.\<close>

definition exclusive :: "world \<Rightarrow> bool" where
  "exclusive w =
     (\<forall>dir. map_of (running_processes w) dir = None \<or> map_of (paused_processes w) dir = None)"

definition excl_rel :: "world \<Rightarrow> world \<Rightarrow> bool" where
  "excl_rel w w' = (exclusive w \<longrightarrow> exclusive w')"

text \<open>The entries of the directory \<open>d\<close> in the two registries are as they were.\<close>

definition keep_rel :: "string \<Rightarrow> world \<Rightarrow> world \<Rightarrow> bool" where
  "keep_rel d w w' =
     (map_of (running_processes w') d = map_of (running_processes w) d
      \<and> map_of (paused_processes w') d = map_of (paused_processes w) d)"

text \<open>Process handles are only ever handed out.\<close>

definition handles_rel :: "world \<Rightarrow> world \<Rightarrow> bool" where
  "handles_rel w w' = (next_handle w \<le> next_handle w')"

text \<open>
  Nothing resolves for a directory and a chat: the user found for the chat has no
  persisted project with this directory and a main file (lines 281 to 285), and no
  onboarding session with scripts chosen (lines 288 to 290). Then \<open>main_files\<close> is empty at
  line 307.
\<close>

definition no_main_files :: "world \<Rightarrow> string \<Rightarrow> int \<Rightarrow> bool" where
  "no_main_files w dir chat =
     (lookup_main_files w (get_user_id_by_chat_id w chat) dir = []
      \<and> session_scripts w (get_user_id_by_chat_id w chat) = [])"

text \<open>
  What an operation may do to the entry of the directory \<open>dir\<close> in the running registry,
  seen from a moment when the next handle is at least \<open>n\<close>: afterwards the entry is
  absent, or the one that was there, or one whose processes all have handles from \<open>n\<close> on,
  so were started later, and which satisfies \<open>Q\<close>.
\<close>

definition fresh_rel :: "nat \<Rightarrow> string \<Rightarrow> (run_state \<Rightarrow> bool) \<Rightarrow> world \<Rightarrow> world \<Rightarrow> bool" where
  "fresh_rel n dir Q w w' =
     (\<not> n \<le> next_handle w
      \<or> (n \<le> next_handle w'
         \<and> (case map_of (running_processes w') dir of
              None \<Rightarrow> True
            | Some i \<Rightarrow>
                map_of (running_processes w) dir = Some i
                \<or> (list_all (\<lambda>h. n \<le> h) (processes i) \<and> Q i))))"
section \<open>Properties of the retry decorator\<close>

declare wrapper.simps [simp del]

lemma wrapper_third:
  assumes "func w = (Inl e, w')"
  shows "wrapper (Suc (Suc 0)) func w = (Inl e, give_up w')"
  by (subst wrapper.simps) (simp add: assms give_up_def)

lemma wrapper_second:
  assumes "func w = (Inl e, w')"
  shows "wrapper (Suc 0) func w = wrapper (Suc (Suc 0)) func (backoff w')"
  by (subst wrapper.simps) (simp add: assms backoff_def)

lemma wrapper_first:
  assumes "func w = (Inl e, w')"
  shows "wrapper 0 func w = wrapper (Suc 0) func (backoff w')"
  by (subst wrapper.simps) (simp add: assms backoff_def)

lemma wrapper_success:
  assumes "func w = (Inr v, w')" and "retries < 3"
  shows "wrapper retries func w = (Inr (Some v), w')"
  by (subst wrapper.simps) (simp add: assms)

lemma error_handler_success:
  assumes "func w = (Inr v, w')"
  shows "error_handler func w = (Inr (Some v), w')"
  using assms by (simp add: error_handler_def wrapper_success)

lemma run_round_never_raises: "\<exists>w'. run_round polling w = (Inr (), w')"
  by (simp add: run_round_def io_try_def io_then_def io_bind_def logger_def time_sleep_def
      io_modify_def split: prod.splits sum.splits)

text \<open>
  C6. A wrapped function that raises at every attempt is called exactly three times: at
  the starting world, and twice more, each time after an error log, a retry log and a
  sleep of 5 seconds. After the third failure the wrapper logs at level critical and
  re-raises the third exception to its caller; it changes nothing but the log. The
  exception then ends at most the current round of the polling loop of \<open>run\<close>, which
  catches it, logs, sleeps 10 seconds and polls again: the loop is not left.
\<close>

theorem error_handler_gives_up_after_three:
  assumes "func w = (Inl e1, w1)"
    and "func (backoff w1) = (Inl e2, w2)"
    and "func (backoff w2) = (Inl e3, w3)"
  shows "error_handler func w = (Inl e3, give_up w3)
       \<and> trace (give_up w3) = trace w3 @ [Logged Error, Logged Critical]
       \<and> trace (backoff w1) = trace w1 @ [Logged Error, Logged Info, Slept 5]
       \<and> trace (backoff w2) = trace w2 @ [Logged Error, Logged Info, Slept 5]
       \<and> run_round (io_then (error_handler func) (io_return ())) w =
           (Inr (), record_event (Slept 10) (record_event (Logged Info)
                      (record_event (Logged Error) (give_up w3))))"
proof -
  have eh: "error_handler func w = (Inl e3, give_up w3)"
    by (simp add: error_handler_def wrapper_first [of func w e1 w1]
        wrapper_second [of func "backoff w1" e2 w2]
        wrapper_third [of func "backoff w2" e3 w3] assms)
  have rr: "run_round (io_then (error_handler func) (io_return ())) w =
           (Inr (), record_event (Slept 10) (record_event (Logged Info)
                      (record_event (Logged Error) (give_up w3))))"
    by (simp add: run_round_def io_try_def io_then_def io_bind_def eh logger_def
        time_sleep_def io_modify_def)
  show ?thesis
    using eh rr by (simp add: give_up_def backoff_def record_event_def)
qed

theorem error_handler_gives_up_after_three_witness:
  "error_handler (io_raise (Exception ''boom'') :: unit io) started =
     (Inl (Exception ''boom''), give_up (backoff (backoff started)))
   \<and> run_round (io_then (error_handler (io_raise (Exception ''boom'') :: unit io))
        (io_return ())) started =
       (Inr (), record_event (Slept 10) (record_event (Logged Info)
          (record_event (Logged Error) (give_up (backoff (backoff started))))))"
  using error_handler_gives_up_after_three
    [of "io_raise (Exception ''boom'') :: unit io" started "Exception ''boom''" started
        "Exception ''boom''" "backoff started" "Exception ''boom''" "backoff (backoff started)"]
  by (simp add: io_raise_def)

section \<open>Properties of UserManager\<close>

lemma save_allowed_users_result:
  "\<exists>w'. save_allowed_users E w = (Inr (), w') \<and> allowed_users w' = allowed_users w
     \<and> (file_write E (tick w) = Written \<longrightarrow> users_file w' = Stored (allowed_users w))"
  by (simp add: save_allowed_users_def io_try_def write_users_def logger_def io_modify_def
      record_event_def split: write_result.splits)

lemma remove_user_of_admin:
  assumes "a \<in> set ADMIN_IDS"
  shows "remove_user E a w = (Inr False, w)"
  using assms by (simp add: remove_user_def io_bind_def io_get_def io_return_def)

lemma add_user_result:
  "\<exists>w'. add_user E uid w = (Inr (), w') \<and> allowed_users w' = insert uid (allowed_users w)"
proof -
  obtain w' where "save_allowed_users E (w\<lparr>allowed_users := insert uid (allowed_users w)\<rparr>)
      = (Inr (), w')"
    and "allowed_users w' = insert uid (allowed_users w)"
    using save_allowed_users_result
      [of E "w\<lparr>allowed_users := insert uid (allowed_users w)\<rparr>"] by auto
  then show ?thesis
    by (simp add: add_user_def io_then_def io_bind_def io_modify_def)
qed

lemma remove_user_of_member:
  assumes "uid \<notin> set ADMIN_IDS" and "uid \<in> allowed_users w"
  shows "\<exists>w'. remove_user E uid w = (Inr True, w') \<and> allowed_users w' = allowed_users w - {uid}
     \<and> (file_write E (tick w) = Written \<longrightarrow> users_file w' = Stored (allowed_users w - {uid}))"
proof -
  obtain w' where "save_allowed_users E (w\<lparr>allowed_users := allowed_users w - {uid}\<rparr>)
      = (Inr (), w')"
    and "allowed_users w' = allowed_users w - {uid}"
    and "file_write E (tick w) = Written \<longrightarrow> users_file w' = Stored (allowed_users w - {uid})"
    using save_allowed_users_result
      [of E "w\<lparr>allowed_users := allowed_users w - {uid}\<rparr>"] by auto
  then show ?thesis
    using assms
    by (simp add: remove_user_def io_then_def io_bind_def io_modify_def io_get_def io_return_def)
qed

lemma remove_user_of_stranger:
  assumes "uid \<notin> allowed_users w"
  shows "remove_user E uid w = (Inr False, w)"
  using assms by (simp add: remove_user_def io_bind_def io_get_def io_return_def)

lemma user_op_step_keeps_admins:
  assumes "set ADMIN_IDS \<subseteq> allowed_users w"
  shows "\<exists>w'. user_op_step E op w = (Inr (), w') \<and> set ADMIN_IDS \<subseteq> allowed_users w'"
proof (cases op)
  case (Add_user uid)
  then show ?thesis
    using add_user_result [of E uid w] assms by auto
next
  case (Remove_user uid)
  show ?thesis
  proof (cases "uid \<in> allowed_users w \<and> uid \<notin> set ADMIN_IDS")
    case True
    then obtain w' where "remove_user E uid w = (Inr True, w')"
      and "allowed_users w' = allowed_users w - {uid}"
      using remove_user_of_member [of uid w E] by auto
    then show ?thesis
      using Remove_user True assms
      by (auto simp: io_then_def io_bind_def io_return_def)
  next
    case False
    then have "remove_user E uid w = (Inr False, w)"
      using remove_user_of_admin remove_user_of_stranger by blast
    then show ?thesis
      using Remove_user assms by (simp add: io_then_def io_bind_def io_return_def)
  qed
qed

lemma user_ops_keep_admins:
  assumes "set ADMIN_IDS \<subseteq> allowed_users w"
  shows "set ADMIN_IDS \<subseteq> allowed_users (snd (user_ops E ops w))"
  using assms
proof (induction ops arbitrary: w)
  case Nil
  then show ?case by (simp add: user_ops_def io_return_def)
next
  case (Cons op ops)
  obtain w' where step: "user_op_step E op w = (Inr (), w')"
    and keep: "set ADMIN_IDS \<subseteq> allowed_users w'"
    using user_op_step_keeps_admins [OF Cons.prems] by blast
  have "user_ops E (op # ops) w = user_ops E ops w'"
    by (simp add: user_ops_def io_then_def io_bind_def step)
  then show ?case
    using Cons.IH [OF keep] by simp
qed

lemma UserManager_init_has_admins: "set ADMIN_IDS \<subseteq> allowed_users (snd (UserManager_init w))"
  by (auto simp: UserManager_init_def load_allowed_users_def io_then_def io_bind_def
      io_modify_def io_get_def io_return_def logger_def record_event_def split: stored.splits)

text \<open>
  C8. For an admin, \<open>remove_user\<close> returns \<open>False\<close> and leaves the world as it is, in every
  world, hence after any calls made before. And after \<open>UserManager.__init__\<close> (whatever the
  file of allowed users holds) followed by any sequence of \<open>add_user\<close> and \<open>remove_user\<close>
  calls, every admin is allowed.
\<close>

theorem admin_is_never_removed:
  assumes "a \<in> set ADMIN_IDS"
  shows "remove_user E a w = (Inr False, w)
       \<and> is_allowed (snd (user_ops E ops (snd (UserManager_init w0)))) a"
  using assms remove_user_of_admin [OF assms]
    user_ops_keep_admins [OF UserManager_init_has_admins, of E ops w0]
  by (auto simp: is_allowed_def)

theorem admin_is_never_removed_witness:
  "7761577562 \<in> set ADMIN_IDS
   \<and> remove_user calm 7761577562 started = (Inr False, started)
   \<and> is_allowed (snd (user_ops calm [Add_user 5, Remove_user 7761577562, Remove_user 5]
        (snd (UserManager_init (blank_world NoFile NoFile))))) 7761577562"
  using admin_is_never_removed [of 7761577562 calm started
      "[Add_user 5, Remove_user 7761577562, Remove_user 5]" "blank_world NoFile NoFile"]
  by (simp add: ADMIN_IDS_def)

text \<open>
  C9, as stated, fails for an id that is neither an admin nor allowed: the guard of
  \<open>remove_user\<close> asks for membership too, and the call returns \<open>False\<close>. Right after the
  start only the admin is allowed, and 5 is not an admin.
\<close>

theorem remove_user_stranger_counterexample:
  "(5::int) \<notin> set ADMIN_IDS \<and> remove_user calm 5 started = (Inr False, started)"
  by (simp add: remove_user_of_stranger ADMIN_IDS_def started_def PythonHostingBot_init_def
      UserManager_init_def ProjectManager_init_def load_allowed_users_def
      load_user_projects_def blank_world_def io_then_def io_bind_def io_modify_def io_get_def
      io_return_def)

text \<open>
  C9, amended. For an id that is not an admin and is allowed, \<open>remove_user\<close> returns
  \<open>True\<close>, takes the id out of the set of allowed users and writes the set to the file
  (the file holds the new set whenever the write succeeds; a failed write is logged
  and not reported). For an id that is not allowed it returns \<open>False\<close> and changes nothing.
\<close>

theorem remove_user_of_non_admin:
  assumes "uid \<notin> set ADMIN_IDS"
  shows "(uid \<in> allowed_users w \<longrightarrow>
           (\<exists>w'. remove_user E uid w = (Inr True, w')
              \<and> allowed_users w' = allowed_users w - {uid}
              \<and> (file_write E (tick w) = Written \<longrightarrow>
                   users_file w' = Stored (allowed_users w - {uid}))))
       \<and> (uid \<notin> allowed_users w \<longrightarrow> remove_user E uid w = (Inr False, w))"
  using remove_user_of_member [OF assms] remove_user_of_stranger by blast

theorem remove_user_of_non_admin_witness:
  "(5::int) \<notin> set ADMIN_IDS \<and> 5 \<in> allowed_users (started\<lparr>allowed_users := {5, 7761577562}\<rparr>)
   \<and> file_write calm (tick (started\<lparr>allowed_users := {5, 7761577562}\<rparr>)) = Written
   \<and> (\<exists>w'. remove_user calm 5 (started\<lparr>allowed_users := {5, 7761577562}\<rparr>) = (Inr True, w')
        \<and> allowed_users w' = {5, 7761577562} - {5}
        \<and> users_file w' = Stored ({5, 7761577562} - {5}))"
  using remove_user_of_non_admin [of 5 "started\<lparr>allowed_users := {5, 7761577562}\<rparr>" calm]
  by (simp add: ADMIN_IDS_def calm_def)

section \<open>Rules for statements\<close>

named_theorems stays_intros

lemma regs_rel_trans: "regs_rel a b \<Longrightarrow> regs_rel b c \<Longrightarrow> regs_rel a c"
  by (simp add: regs_rel_def)

lemma regs_rel_refl: "regs_rel w w"
  by (simp add: regs_rel_def)

lemma lax_regs_rel [simp]: "lax regs_rel"
  unfolding lax_def using regs_rel_trans by blast

lemma excl_rel_trans: "excl_rel a b \<Longrightarrow> excl_rel b c \<Longrightarrow> excl_rel a c"
  by (simp add: excl_rel_def)

lemma regs_rel_excl_rel: "regs_rel a b \<Longrightarrow> excl_rel a b"
  by (simp add: regs_rel_def excl_rel_def exclusive_def)

lemma lax_excl_rel [simp]: "lax excl_rel"
  unfolding lax_def using excl_rel_trans regs_rel_excl_rel by blast

lemma keep_rel_trans: "keep_rel d a b \<Longrightarrow> keep_rel d b c \<Longrightarrow> keep_rel d a c"
  by (simp add: keep_rel_def)

lemma regs_rel_keep_rel: "regs_rel a b \<Longrightarrow> keep_rel d a b"
  by (simp add: regs_rel_def keep_rel_def)

lemma lax_keep_rel [simp]: "lax (keep_rel d)"
  unfolding lax_def using keep_rel_trans regs_rel_keep_rel by blast

lemma handles_rel_trans: "handles_rel a b \<Longrightarrow> handles_rel b c \<Longrightarrow> handles_rel a c"
  by (simp add: handles_rel_def)

lemma regs_rel_handles_rel: "regs_rel a b \<Longrightarrow> handles_rel a b"
  by (simp add: regs_rel_def handles_rel_def)

lemma lax_handles_rel [simp]: "lax handles_rel"
  unfolding lax_def using handles_rel_trans regs_rel_handles_rel by blast

lemma lax_trans: "lax R \<Longrightarrow> R a b \<Longrightarrow> R b c \<Longrightarrow> R a c"
  unfolding lax_def by blast

lemma lax_refl: "lax R \<Longrightarrow> R w w"
  unfolding lax_def using regs_rel_refl by blast

lemma lax_regs: "lax R \<Longrightarrow> regs_rel w w' \<Longrightarrow> R w w'"
  unfolding lax_def by blast

lemma lax_event: "lax R \<Longrightarrow> R w (record_event ev w)"
  by (rule lax_regs) (simp_all add: record_event_def regs_rel_def)

lemma lax_backoff: "lax R \<Longrightarrow> R w (backoff w)"
  by (rule lax_regs) (simp_all add: backoff_def record_event_def regs_rel_def)

lemma lax_give_up: "lax R \<Longrightarrow> R w (give_up w)"
  by (rule lax_regs) (simp_all add: give_up_def record_event_def regs_rel_def)

lemma stays_regs: "lax R \<Longrightarrow> (\<And>w. regs_rel w (snd (m w))) \<Longrightarrow> stays R m"
  unfolding lax_def stays_def by blast

lemma staysD:
  assumes "stays R m" and "m w = (r, w')"
  shows "R w w'"
  using assms(1) [unfolded stays_def, rule_format, of w] assms(2) by simp

lemma stays_return [stays_intros]: "lax R \<Longrightarrow> stays R (io_return v)"
  by (simp add: stays_def lax_refl io_return_def)

lemma stays_raise [stays_intros]: "lax R \<Longrightarrow> stays R (io_raise e)"
  by (simp add: stays_def lax_refl io_raise_def)

lemma stays_get [stays_intros]: "lax R \<Longrightarrow> stays R (io_get f)"
  by (simp add: stays_def lax_refl io_get_def)

lemma stays_bind [stays_intros]:
  assumes "lax R" and "stays R m" and "\<And>v. stays R (k v)"
  shows "stays R (io_bind m k)"
  unfolding stays_def
proof
  fix w
  obtain r w' where mw: "m w = (r, w')" by (cases "m w")
  have a: "R w w'" using staysD [OF assms(2) mw] .
  show "R w (snd (io_bind m k w))"
  proof (cases r)
    case (Inl e)
    then show ?thesis using a mw by (simp add: io_bind_def)
  next
    case (Inr v)
    have "R w' (snd (k v w'))" using assms(3) unfolding stays_def by blast
    then have "R w (snd (k v w'))" using lax_trans [OF assms(1) a] by blast
    then show ?thesis using mw Inr by (simp add: io_bind_def)
  qed
qed

lemma stays_then [stays_intros]:
  "lax R \<Longrightarrow> stays R m \<Longrightarrow> stays R k \<Longrightarrow> stays R (io_then m k)"
  by (simp add: io_then_def stays_bind)

lemma stays_try [stays_intros]:
  assumes "lax R" and "stays R m" and "\<And>e. stays R (h e)"
  shows "stays R (io_try m h)"
  unfolding stays_def
proof
  fix w
  obtain r w' where mw: "m w = (r, w')" by (cases "m w")
  have a: "R w w'" using staysD [OF assms(2) mw] .
  show "R w (snd (io_try m h w))"
  proof (cases r)
    case (Inr v)
    then show ?thesis using a mw by (simp add: io_try_def)
  next
    case (Inl e)
    have "R w' (snd (h e w'))" using assms(3) unfolding stays_def by blast
    then have "R w (snd (h e w'))" using lax_trans [OF assms(1) a] by blast
    then show ?thesis using mw Inl by (simp add: io_try_def)
  qed
qed

lemma stays_if [stays_intros]:
  "stays R a \<Longrightarrow> stays R b \<Longrightarrow> stays R (if c then a else b)"
  by simp

lemma stays_case_option [stays_intros]:
  "stays R a \<Longrightarrow> (\<And>x. stays R (b x)) \<Longrightarrow> stays R (case_option a b v)"
  by (cases v) simp_all

lemma stays_case_prod [stays_intros]:
  "(\<And>a b. stays R (f a b)) \<Longrightarrow> stays R (case_prod f p)"
  by (cases p) simp

lemma stays_foreach [stays_intros]:
  "lax R \<Longrightarrow> (\<And>x. stays R (f x)) \<Longrightarrow> stays R (io_foreach xs f)"
  by (induction xs) (simp_all add: stays_return stays_then)

lemma stays_foreach_set:
  "lax R \<Longrightarrow> (\<And>x. x \<in> set xs \<Longrightarrow> stays R (f x)) \<Longrightarrow> stays R (io_foreach xs f)"
  by (induction xs) (simp_all add: stays_return stays_then)

lemma stays_foldl [stays_intros]:
  "lax R \<Longrightarrow> (\<And>acc x. stays R (f acc x)) \<Longrightarrow> stays R (io_foldl xs f a)"
  by (induction xs arbitrary: a) (simp_all add: stays_return stays_bind)

lemma stays_logger [stays_intros]: "lax R \<Longrightarrow> stays R (logger l)"
  by (rule stays_regs) (simp_all add: logger_def io_modify_def record_event_def regs_rel_def)

lemma stays_time_sleep [stays_intros]: "lax R \<Longrightarrow> stays R (time_sleep n)"
  by (rule stays_regs) (simp_all add: time_sleep_def io_modify_def record_event_def regs_rel_def)

lemma stays_datetime_now [stays_intros]: "lax R \<Longrightarrow> stays R (datetime_now E)"
  by (rule stays_regs) (simp_all add: datetime_now_def regs_rel_def)

lemma stays_bot_send [stays_intros]: "lax R \<Longrightarrow> stays R (bot_send E chat n)"
  by (rule stays_regs) (simp_all add: bot_send_def regs_rel_def)

lemma stays_os_path_exists [stays_intros]: "lax R \<Longrightarrow> stays R (os_path_exists E p)"
  by (rule stays_regs) (simp_all add: os_path_exists_def regs_rel_def)

lemma stays_os_path_isfile [stays_intros]: "lax R \<Longrightarrow> stays R (os_path_isfile E p)"
  by (rule stays_regs) (simp_all add: os_path_isfile_def regs_rel_def)

lemma stays_pip_install [stays_intros]: "lax R \<Longrightarrow> stays R (pip_install E p)"
  by (rule stays_regs)
     (simp_all add: pip_install_def regs_rel_def Let_def split: pip_result.splits)

lemma stays_popen [stays_intros]: "lax R \<Longrightarrow> stays R (popen E script cwd)"
  by (rule stays_regs) (simp_all add: popen_def regs_rel_def)

lemma stays_proc_terminate [stays_intros]: "lax R \<Longrightarrow> stays R (proc_terminate E p)"
  by (rule stays_regs) (simp_all add: proc_terminate_def regs_rel_def)

lemma stays_proc_wait [stays_intros]: "lax R \<Longrightarrow> stays R (proc_wait E p)"
  by (rule stays_regs) (simp_all add: proc_wait_def regs_rel_def)

lemma stays_proc_kill [stays_intros]: "lax R \<Longrightarrow> stays R (proc_kill E p)"
  by (rule stays_regs) (simp_all add: proc_kill_def regs_rel_def)

lemma stays_shutil_rmtree [stays_intros]: "lax R \<Longrightarrow> stays R (shutil_rmtree E p)"
  by (rule stays_regs) (simp_all add: shutil_rmtree_def regs_rel_def)

lemma stays_bot_delete_message [stays_intros]: "lax R \<Longrightarrow> stays R (bot_delete_message E p)"
  by (rule stays_regs) (simp_all add: bot_delete_message_def regs_rel_def)

lemma stays_write_projects [stays_intros]: "lax R \<Longrightarrow> stays R (write_projects E)"
  by (rule stays_regs)
     (simp_all add: write_projects_def regs_rel_def split: write_result.splits)

text \<open>The decorator, written out: at most three attempts.\<close>

lemma error_handler_unfold:
  "error_handler func w =
     (case func w of
        (Inr v, w1) \<Rightarrow> (Inr (Some v), w1)
      | (Inl e1, w1) \<Rightarrow>
          (case func (backoff w1) of
             (Inr v, w2) \<Rightarrow> (Inr (Some v), w2)
           | (Inl e2, w2) \<Rightarrow>
               (case func (backoff w2) of
                  (Inr v, w3) \<Rightarrow> (Inr (Some v), w3)
                | (Inl e3, w3) \<Rightarrow> (Inl e3, give_up w3))))"
proof -
  obtain r1 w1 where f1: "func w = (r1, w1)" by (cases "func w")
  obtain r2 w2 where f2: "func (backoff w1) = (r2, w2)" by (cases "func (backoff w1)")
  obtain r3 w3 where f3: "func (backoff w2) = (r3, w3)" by (cases "func (backoff w2)")
  show ?thesis
  proof (cases r1)
    case (Inr v)
    then show ?thesis using f1 by (simp add: error_handler_success)
  next
    case e1: (Inl e1)
    show ?thesis
    proof (cases r2)
      case (Inr v)
      then show ?thesis
        using f1 f2 e1
        by (simp add: error_handler_def wrapper_first [of func w e1 w1] wrapper_success)
    next
      case e2: (Inl e2)
      show ?thesis
      proof (cases r3)
        case (Inr v)
        then show ?thesis
          using f1 f2 f3 e1 e2
          by (simp add: error_handler_def wrapper_first [of func w e1 w1]
              wrapper_second [of func "backoff w1" e2 w2] wrapper_success)
      next
        case (Inl e3)
        then show ?thesis
          using f1 f2 f3 e1 e2
          by (simp add: error_handler_def wrapper_first [of func w e1 w1]
              wrapper_second [of func "backoff w1" e2 w2]
              wrapper_third [of func "backoff w2" e3 w3])
      qed
    qed
  qed
qed

lemma stays_error_handler [stays_intros]:
  assumes "lax R" and "stays R func"
  shows "stays R (error_handler func)"
  unfolding stays_def
proof
  fix w
  obtain r1 w1 where f1: "func w = (r1, w1)" by (cases "func w")
  obtain r2 w2 where f2: "func (backoff w1) = (r2, w2)" by (cases "func (backoff w1)")
  obtain r3 w3 where f3: "func (backoff w2) = (r3, w3)" by (cases "func (backoff w2)")
  note tr = lax_trans [OF assms(1)]
  have a1: "R w w1" using staysD [OF assms(2) f1] .
  have a2: "R w w2" using tr [OF tr [OF a1 lax_backoff [OF assms(1)]] staysD [OF assms(2) f2]] .
  have a3: "R w w3" using tr [OF tr [OF a2 lax_backoff [OF assms(1)]] staysD [OF assms(2) f3]] .
  have a4: "R w (give_up w3)" using tr [OF a3 lax_give_up [OF assms(1)]] .
  show "R w (snd (error_handler func w))"
  proof (cases r1)
    case (Inr v)
    then show ?thesis using a1 f1 by (simp add: error_handler_success)
  next
    case e1: (Inl e1)
    show ?thesis
    proof (cases r2)
      case (Inr v)
      then show ?thesis
        using a2 f1 f2 e1 by (subst error_handler_unfold) simp
    next
      case e2: (Inl e2)
      show ?thesis
      proof (cases r3)
        case (Inr v)
        then show ?thesis
          using a3 f1 f2 f3 e1 e2 by (subst error_handler_unfold) simp
      next
        case (Inl e3)
        then show ?thesis
          using a4 f1 f2 f3 e1 e2 by (subst error_handler_unfold) simp
      qed
    qed
  qed
qed

section \<open>What the operations leave alone\<close>

lemma stays_modify: "lax R \<Longrightarrow> (\<And>w. regs_rel w (f w)) \<Longrightarrow> stays R (io_modify f)"
  by (rule stays_regs) (simp_all add: io_modify_def)

lemma stays_save_user_projects [stays_intros]: "lax R \<Longrightarrow> stays R (save_user_projects E)"
  unfolding save_user_projects_def by (intro stays_intros; assumption)

lemma stays_install_requirements [stays_intros]:
  "lax R \<Longrightarrow> stays R (install_requirements E dir chat)"
  unfolding install_requirements_def install_requirements_body_def Let_def
  by (intro stays_intros; assumption)

lemma stays_persist_project [stays_intros]:
  "lax R \<Longrightarrow> stays R (persist_project E dir chat u files)"
  unfolding persist_project_def
  by (intro stays_intros stays_modify; (assumption | simp add: regs_rel_def))

lemma stays_resolve_main_files [stays_intros]:
  "lax R \<Longrightarrow> stays R (resolve_main_files E dir chat)"
  unfolding resolve_main_files_def by (intro stays_intros; assumption)

lemma stays_missing_files [stays_intros]: "lax R \<Longrightarrow> stays R (missing_files E files)"
  unfolding missing_files_def by (intro stays_intros; assumption)

lemma stays_launch [stays_intros]: "lax R \<Longrightarrow> stays R (launch E dir chat procs main_file)"
  unfolding launch_def Let_def by (intro stays_intros; assumption)

lemma stays_start_output_reader [stays_intros]:
  "lax R \<Longrightarrow> stays R (start_output_reader process)"
  unfolding start_output_reader_def
  by (intro stays_intros stays_modify; (assumption | simp add: regs_rel_def record_event_def))

lemma stays_compute_end_time [stays_intros]:
  "lax R \<Longrightarrow> stays R (compute_end_time E duration_days)"
  unfolding compute_end_time_def by (intro stays_intros; assumption)

lemma stays_finish_launch:
  "lax R \<Longrightarrow> (\<And>info. stays R (register dir info)) \<Longrightarrow>
   stays R (finish_launch E dir chat duration_days a uid files procs)"
  unfolding finish_launch_def by (intro stays_intros; assumption)

lemma stays_launch_all:
  "lax R \<Longrightarrow> (\<And>info. stays R (register dir info)) \<Longrightarrow>
   stays R (launch_all E dir chat duration_days a uid files)"
  unfolding launch_all_def by (intro stays_intros stays_finish_launch; assumption)

text \<open>The body of \<open>run_project\<close> around the launch of the processes.\<close>

lemma stays_run_project_around:
  "lax R \<Longrightarrow> (\<And>uid files. stays R (launch_all E dir chat duration_days a uid files)) \<Longrightarrow>
   stays R (run_project_body E dir chat duration_days a)"
  unfolding run_project_body_def
  by (intro stays_intros; assumption)

lemma stays_run_project:
  "lax R \<Longrightarrow> (\<And>info. stays R (register dir info)) \<Longrightarrow>
   stays R (run_project E dir chat duration_days a)"
  unfolding run_project_def
  by (intro stays_error_handler stays_run_project_around stays_launch_all; assumption)

lemma stays_stop_process [stays_intros]: "lax R \<Longrightarrow> stays R (stop_process E process)"
  unfolding stop_process_def by (intro stays_intros; assumption)

lemma stays_stop_project:
  "lax R \<Longrightarrow> (\<And>info. stays R (unregister dir info pause)) \<Longrightarrow>
   stays R (stop_project E dir chat pause)"
  unfolding stop_project_def stop_project_body_def
  by (intro stays_intros; assumption)

lemma stays_remaining_days [stays_intros]: "lax R \<Longrightarrow> stays R (remaining_days E e)"
  unfolding remaining_days_def by (intro stays_intros; assumption)

lemma stays_restart_entry:
  "lax R \<Longrightarrow> (\<And>info. stays R (register (fst item) info)) \<Longrightarrow>
   (\<And>info. stays R (unregister (fst item) info False)) \<Longrightarrow>
   stays R (restart_entry E item)"
  unfolding restart_entry_def Let_def
  by (intro stays_intros stays_run_project stays_stop_project; assumption)

lemma stays_global_restart_pass:
  "lax R \<Longrightarrow> (\<And>dir info. stays R (register dir info)) \<Longrightarrow>
   (\<And>dir info. stays R (unregister dir info False)) \<Longrightarrow>
   stays R (global_restart_pass E)"
  unfolding global_restart_pass_def
  by (intro stays_intros stays_restart_entry; assumption)

lemma stays_cleanup:
  "lax R \<Longrightarrow> (\<And>dir info. stays R (unregister dir info False)) \<Longrightarrow>
   (\<And>w. R w (w\<lparr>keep_running := False\<rparr>)) \<Longrightarrow> stays R (cleanup E)"
  unfolding cleanup_def
  by (intro stays_intros stays_stop_project stays_modify; (assumption | simp add: regs_rel_def))

subsection \<open>The two registries\<close>

lemma register_result:
  "register dir info w =
     (Inr (), w\<lparr>running_processes := AList.update dir info (running_processes w),
               paused_processes := AList.delete dir (paused_processes w)\<rparr>)"
  by (cases "map_of (paused_processes w) dir")
     (simp_all add: register_def io_then_def io_bind_def io_modify_def io_get_def io_return_def
        delete_notin_dom map_of_eq_None_iff)

lemma unregister_world:
  "snd (unregister dir info pause w) =
     (if map_of (running_processes w) dir = None
      then (if pause
            then w\<lparr>paused_processes := AList.update dir info (paused_processes w)\<rparr> else w)
      else (if pause
            then w\<lparr>paused_processes := AList.update dir info (paused_processes w),
                   running_processes := AList.delete dir (running_processes w)\<rparr>
            else w\<lparr>running_processes := AList.delete dir (running_processes w)\<rparr>))"
  by (cases "map_of (running_processes w) dir")
     (simp_all add: unregister_def del_running_def io_then_def io_bind_def io_modify_def
        io_get_def io_return_def io_raise_def)

lemma register_exclusive: "stays excl_rel (register dir info)"
  by (simp add: stays_def excl_rel_def exclusive_def register_result update_conv' delete_conv')

lemma unregister_exclusive: "stays excl_rel (unregister dir info pause)"
  by (auto simp: stays_def excl_rel_def exclusive_def unregister_world update_conv' delete_conv')

lemma register_keeps: "d \<noteq> dir \<Longrightarrow> stays (keep_rel d) (register dir info)"
  by (simp add: stays_def keep_rel_def register_result update_conv' delete_conv')

lemma unregister_keeps: "d \<noteq> dir \<Longrightarrow> stays (keep_rel d) (unregister dir info pause)"
  by (simp add: stays_def keep_rel_def unregister_world update_conv' delete_conv')

lemma register_handles: "stays handles_rel (register dir info)"
  by (simp add: stays_def handles_rel_def register_result)

lemma unregister_handles: "stays handles_rel (unregister dir info pause)"
  by (simp add: stays_def handles_rel_def unregister_world)

section \<open>The registries exclude each other\<close>

lemma set_end_time_exclusive: "stays excl_rel (set_end_time dir e)"
  unfolding stays_def excl_rel_def
proof (intro allI impI)
  fix w
  assume ex: "exclusive w"
  show "exclusive (snd (set_end_time dir e w))"
  proof (cases "map_of (running_processes w) dir")
    case None
    then show ?thesis
      using ex by (simp add: set_end_time_def io_bind_def io_get_def io_raise_def)
  next
    case (Some info)
    have "map_of (paused_processes w) dir = None"
      using ex Some unfolding exclusive_def by (metis option.distinct(1))
    then show ?thesis
      using ex Some
      by (simp add: set_end_time_def io_bind_def io_get_def io_modify_def exclusive_def
          update_conv')
  qed
qed

lemma drop_paused_exclusive:
  "stays excl_rel
     (io_modify (\<lambda>w. w\<lparr>paused_processes := AList.delete dir (paused_processes w)\<rparr>))"
  by (auto simp: stays_def excl_rel_def exclusive_def io_modify_def delete_conv')

lemma run_project_exclusive: "stays excl_rel (run_project E dir chat duration_days a)"
  by (rule stays_run_project) (simp_all add: register_exclusive)

lemma stop_project_exclusive: "stays excl_rel (stop_project E dir chat pause)"
  by (rule stays_stop_project) (simp_all add: unregister_exclusive)

lemma on_run_exclusive: "stays excl_rel (on_run E dir chat)"
  unfolding on_run_def by (intro stays_intros run_project_exclusive lax_excl_rel)

lemma on_stop_exclusive: "stays excl_rel (on_stop E dir chat pause)"
  unfolding on_stop_def by (intro stays_intros stop_project_exclusive lax_excl_rel)

lemma on_resume_exclusive: "stays excl_rel (on_resume E dir chat)"
  unfolding on_resume_def by (intro stays_intros run_project_exclusive lax_excl_rel)

lemma on_restart_exclusive: "stays excl_rel (on_restart E dir chat)"
  unfolding on_restart_def
  by (intro stays_intros run_project_exclusive stop_project_exclusive lax_excl_rel)

lemma on_duration_set_exclusive: "stays excl_rel (on_duration_set E data chat)"
  unfolding on_duration_set_def Let_def
  by (intro stays_intros set_end_time_exclusive lax_excl_rel)

lemma stays_forget_project: "lax R \<Longrightarrow> stays R (forget_project E dir chat)"
  unfolding forget_project_def
  by (intro stays_intros stays_modify; (assumption | simp add: regs_rel_def))

lemma on_delete_exclusive: "stays excl_rel (on_delete E dir chat)"
  unfolding on_delete_def
  by (intro stays_intros stays_forget_project stop_project_exclusive drop_paused_exclusive
      lax_excl_rel)

lemma handle_callbacks_exclusive: "stays excl_rel (handle_callbacks E call)"
  unfolding handle_callbacks_def handle_callbacks_body_def Let_def
  by (intro stays_intros on_run_exclusive on_stop_exclusive on_resume_exclusive
      on_restart_exclusive on_duration_set_exclusive on_delete_exclusive lax_excl_rel)

lemma global_restart_pass_exclusive: "stays excl_rel (global_restart_pass E)"
  by (rule stays_global_restart_pass) (simp_all add: register_exclusive unregister_exclusive)

lemma cleanup_exclusive: "stays excl_rel (cleanup E)"
  by (rule stays_cleanup)
     (simp_all add: unregister_exclusive excl_rel_def exclusive_def)

lemma init_exclusive: "exclusive (PythonHostingBot_init uf pf)"
  by (simp add: exclusive_def PythonHostingBot_init_def UserManager_init_def
      ProjectManager_init_def load_allowed_users_def load_user_projects_def blank_world_def
      io_then_def io_bind_def io_modify_def io_get_def io_return_def logger_def
      record_event_def split: stored.splits)

lemma excl_relD: "stays excl_rel m \<Longrightarrow> exclusive w \<Longrightarrow> exclusive (snd (m w))"
  by (simp add: stays_def excl_rel_def)

text \<open>
  C1. After \<open>PythonHostingBot.__init__\<close> no directory is a key of both registries, and
  each operation of the supervisor keeps it so, whether it returns or raises and through
  all the attempts the retry decorator makes: \<open>run_project\<close>, \<open>stop_project\<close> with and
  without \<open>pause\<close>, the branches of \<open>handle_callbacks\<close> for resume and delete, the whole
  of \<open>handle_callbacks\<close> (run, stop, pause, resume, restart, duration, delete), one round
  of the periodic sweep and \<open>cleanup\<close>. One operation is followed at a time; the sweep
  runs in a thread of its own, and its interleaving with a handler is not modelled.
\<close>

theorem registries_stay_exclusive:
  assumes "exclusive w"
  shows "exclusive (PythonHostingBot_init uf pf)
       \<and> exclusive (snd (run_project E dir chat duration_days a w))
       \<and> exclusive (snd (stop_project E dir chat pause w))
       \<and> exclusive (snd (on_resume E dir chat w))
       \<and> exclusive (snd (on_delete E dir chat w))
       \<and> exclusive (snd (handle_callbacks E call w))
       \<and> exclusive (snd (global_restart_pass E w))
       \<and> exclusive (snd (cleanup E w))"
  by (simp add: assms init_exclusive
      excl_relD [OF run_project_exclusive] excl_relD [OF stop_project_exclusive]
      excl_relD [OF on_resume_exclusive] excl_relD [OF on_delete_exclusive]
      excl_relD [OF handle_callbacks_exclusive] excl_relD [OF global_restart_pass_exclusive]
      excl_relD [OF cleanup_exclusive])

theorem registries_stay_exclusive_witness:
  "exclusive one_running
   \<and> exclusive (snd (stop_project calm ''projects/1/a'' 1 True one_running))
   \<and> exclusive (snd (on_resume calm ''projects/1/a'' 1 one_running))
   \<and> exclusive (snd (global_restart_pass chat1_blocked one_running))"
  using registries_stay_exclusive [where w = one_running and E = calm
      and dir = "''projects/1/a''" and chat = 1 and pause = True]
    registries_stay_exclusive [where w = one_running and E = chat1_blocked]
  by (simp add: exclusive_def one_running_def)

section \<open>Starting a project that has no main files\<close>

lemma started_world:
  "started =
     \<lparr>allowed_users = set ADMIN_IDS, users_file = NoFile, running_processes = [],
      paused_processes = [], user_projects = [], waiting_for_main_file = [],
      keep_running = True, projects_file = NoFile, next_handle = 0, reads = 0, tick = 0,
      trace = []\<rparr>"
  by (simp add: started_def PythonHostingBot_init_def UserManager_init_def
      ProjectManager_init_def load_allowed_users_def load_user_projects_def blank_world_def
      io_then_def io_bind_def io_modify_def io_get_def io_return_def)

lemma lookup_main_files_tick [simp]:
  "lookup_main_files (w\<lparr>tick := t\<rparr>) uid dir = lookup_main_files w uid dir"
  by (cases uid) (simp_all add: lookup_main_files_def)

lemma lookup_main_files_trace [simp]:
  "lookup_main_files (w\<lparr>trace := t\<rparr>) uid dir = lookup_main_files w uid dir"
  by (cases uid) (simp_all add: lookup_main_files_def)

lemma session_scripts_tick [simp]:
  "session_scripts (w\<lparr>tick := t\<rparr>) uid = session_scripts w uid"
  by (cases uid) (simp_all add: session_scripts_def)

lemma session_scripts_trace [simp]:
  "session_scripts (w\<lparr>trace := t\<rparr>) uid = session_scripts w uid"
  by (cases uid) (simp_all add: session_scripts_def)

lemma get_user_id_by_chat_id_tick [simp]:
  "get_user_id_by_chat_id (w\<lparr>tick := t\<rparr>) chat = get_user_id_by_chat_id w chat"
  by (simp add: get_user_id_by_chat_id_def)

lemma get_user_id_by_chat_id_trace [simp]:
  "get_user_id_by_chat_id (w\<lparr>trace := t\<rparr>) chat = get_user_id_by_chat_id w chat"
  by (simp add: get_user_id_by_chat_id_def)

lemma no_main_files_tick [simp]:
  "no_main_files (w\<lparr>tick := t\<rparr>) dir chat = no_main_files w dir chat"
  by (simp add: no_main_files_def)

lemma no_main_files_trace [simp]:
  "no_main_files (w\<lparr>trace := t\<rparr>) dir chat = no_main_files w dir chat"
  by (simp add: no_main_files_def)

lemma resolve_main_files_nothing:
  assumes "no_main_files w dir chat"
  shows "resolve_main_files E dir chat w = (Inr (get_user_id_by_chat_id w chat, []), w)"
  using assms
  by (simp add: no_main_files_def resolve_main_files_def io_bind_def io_get_def io_return_def
      split: option.splits)

lemma run_project_body_nothing:
  assumes "no_main_files w dir chat"
  shows "run_project_body E dir chat d a w =
     (if gateway_ok E (tick w) chat
      then (Inr False,
            w\<lparr>tick := Suc (tick w), trace := trace w @ [Sent chat NoMainFiles, Logged Error]\<rparr>)
      else (Inl (Exception ''ApiException''),
            w\<lparr>tick := Suc (tick w), trace := trace w @ [SendFailed chat NoMainFiles]\<rparr>))"
  by (simp add: run_project_body_def io_bind_def io_then_def
      resolve_main_files_nothing [OF assms] bot_send_def logger_def io_modify_def
      record_event_def io_return_def)

lemma run_project_nothing:
  assumes "no_main_files w dir chat"
  shows "run_project E dir chat d a w =
     (if gateway_ok E (tick w) chat
      then (Inr (Some False),
            w\<lparr>tick := Suc (tick w), trace := trace w @ [Sent chat NoMainFiles, Logged Error]\<rparr>)
      else if gateway_ok E (Suc (tick w)) chat
      then (Inr (Some False),
            w\<lparr>tick := Suc (Suc (tick w)),
              trace := trace w @ [SendFailed chat NoMainFiles, Logged Error, Logged Info,
                Slept 5, Sent chat NoMainFiles, Logged Error]\<rparr>)
      else if gateway_ok E (Suc (Suc (tick w))) chat
      then (Inr (Some False),
            w\<lparr>tick := Suc (Suc (Suc (tick w))),
              trace := trace w @ [SendFailed chat NoMainFiles, Logged Error, Logged Info,
                Slept 5, SendFailed chat NoMainFiles, Logged Error, Logged Info, Slept 5,
                Sent chat NoMainFiles, Logged Error]\<rparr>)
      else (Inl (Exception ''ApiException''),
            w\<lparr>tick := Suc (Suc (Suc (tick w))),
              trace := trace w @ [SendFailed chat NoMainFiles, Logged Error, Logged Info,
                Slept 5, SendFailed chat NoMainFiles, Logged Error, Logged Info, Slept 5,
                SendFailed chat NoMainFiles, Logged Error, Logged Critical]\<rparr>))"
  unfolding run_project_def
  by (subst error_handler_unfold)
     (simp add: run_project_body_nothing assms backoff_def give_up_def record_event_def)

text \<open>
  C2, as stated, fails when the notice cannot be delivered: the call of
  \<open>bot.send_message\<close> at line 308 is outside every \<open>try\<close>, so after three attempts the
  decorator re-raises and \<open>run_project\<close> returns nothing. Right after the start nothing
  resolves for any directory, and chat 1 is not reachable.
\<close>

theorem run_project_raises_counterexample:
  "no_main_files started ''projects/1/a'' 1
   \<and> fst (run_project chat1_blocked ''projects/1/a'' 1 None True started) =
       Inl (Exception ''ApiException'')"
proof -
  have n: "no_main_files started ''projects/1/a'' 1"
    by (simp add: started_world no_main_files_def get_user_id_by_chat_id_def
        lookup_main_files_def session_scripts_def)
  show ?thesis
    by (simp add: n run_project_nothing [OF n] chat1_blocked_def calm_def)
qed

text \<open>
  C2, amended. When nothing resolves, \<open>run_project\<close> leaves both registries, and all the
  other attributes of the manager, as they are. It makes up to three attempts to send
  the notice; it returns \<open>False\<close> as soon as one is delivered, and raises the exception of
  the gateway when all three fail.
\<close>

theorem run_project_without_main_files:
  assumes "no_main_files w dir chat"
  shows "running_processes (snd (run_project E dir chat d a w)) = running_processes w
       \<and> paused_processes (snd (run_project E dir chat d a w)) = paused_processes w
       \<and> quiet_rel w (snd (run_project E dir chat d a w))
       \<and> fst (run_project E dir chat d a w) =
           (if gateway_ok E (tick w) chat \<or> gateway_ok E (Suc (tick w)) chat
               \<or> gateway_ok E (Suc (Suc (tick w))) chat
            then Inr (Some False) else Inl (Exception ''ApiException''))"
  by (simp add: run_project_nothing [OF assms] quiet_rel_def)

theorem run_project_without_main_files_witness:
  "no_main_files started ''projects/1/a'' 1
   \<and> running_processes (snd (run_project calm ''projects/1/a'' 1 None True started)) = []
   \<and> paused_processes (snd (run_project calm ''projects/1/a'' 1 None True started)) = []
   \<and> fst (run_project calm ''projects/1/a'' 1 None True started) = Inr (Some False)"
  using run_project_without_main_files [where w = started and dir = "''projects/1/a''"
      and chat = 1 and E = calm and d = None and a = True]
  by (simp add: started_world no_main_files_def get_user_id_by_chat_id_def
      lookup_main_files_def session_scripts_def calm_def)

section \<open>What a launch writes into the running registry\<close>

lemma stays_bind_val:
  assumes "lax R" and "stays R m"
    and "\<And>w v w'. P w \<Longrightarrow> m w = (Inr v, w') \<Longrightarrow> Q v"
    and "\<And>v. Q v \<Longrightarrow> stays R (k v)"
    and "\<And>w w'. \<not> P w \<Longrightarrow> R w w'"
  shows "stays R (io_bind m k)"
  unfolding stays_def
proof
  fix w
  obtain r w' where mw: "m w = (r, w')" by (cases "m w")
  have a: "R w w'" using staysD [OF assms(2) mw] .
  show "R w (snd (io_bind m k w))"
  proof (cases r)
    case (Inl e)
    then show ?thesis using a mw by (simp add: io_bind_def)
  next
    case (Inr v)
    show ?thesis
    proof (cases "P w")
      case True
      have "Q v" using assms(3) [OF True] mw Inr by simp
      then have "R w' (snd (k v w'))" using assms(4) unfolding stays_def by blast
      then have "R w (snd (k v w'))" using lax_trans [OF assms(1) a] by blast
      then show ?thesis using mw Inr by (simp add: io_bind_def)
    next
      case False
      then show ?thesis using assms(5) by blast
    qed
  qed
qed

lemma fresh_rel_trans:
  assumes "fresh_rel n dir Q a b" and "fresh_rel n dir Q b c"
  shows "fresh_rel n dir Q a c"
proof (cases "n \<le> next_handle a")
  case False
  then show ?thesis by (simp add: fresh_rel_def)
next
  case True
  then have b: "n \<le> next_handle b" using assms(1) by (simp add: fresh_rel_def)
  then have c: "n \<le> next_handle c" using assms(2) by (simp add: fresh_rel_def)
  show ?thesis
  proof (cases "map_of (running_processes c) dir")
    case None
    then show ?thesis using c by (simp add: fresh_rel_def)
  next
    case (Some i)
    have "map_of (running_processes b) dir = Some i
        \<or> (list_all (\<lambda>h. n \<le> h) (processes i) \<and> Q i)"
      using assms(2) b Some by (simp add: fresh_rel_def)
    then have "map_of (running_processes a) dir = Some i
        \<or> (list_all (\<lambda>h. n \<le> h) (processes i) \<and> Q i)"
      using assms(1) True by (auto simp: fresh_rel_def)
    then show ?thesis using c Some by (simp add: fresh_rel_def)
  qed
qed

lemma regs_rel_fresh_rel: "regs_rel a b \<Longrightarrow> fresh_rel n dir Q a b"
  by (simp add: regs_rel_def fresh_rel_def split: option.splits)

lemma lax_fresh_rel [simp]: "lax (fresh_rel n dir Q)"
  unfolding lax_def using fresh_rel_trans regs_rel_fresh_rel by blast

lemma register_fresh:
  assumes "list_all (\<lambda>h. n \<le> h) (processes info)" and "Q info"
  shows "stays (fresh_rel n dir Q) (register dir info)"
  using assms by (simp add: stays_def fresh_rel_def register_result update_conv')

lemma register_other_fresh: "d \<noteq> dir \<Longrightarrow> stays (fresh_rel n d Q) (register dir info)"
  by (simp add: stays_def fresh_rel_def register_result update_conv' split: option.splits)

lemma unregister_fresh: "stays (fresh_rel n d Q) (unregister dir info pause)"
  by (simp add: stays_def fresh_rel_def unregister_world delete_conv' split: option.splits)

lemma launch_result:
  assumes "launch E dir chat procs f w = (Inr procs', w')"
  shows "procs' = procs \<or> procs' = procs @ [next_handle w]"
  using assms
  by (auto simp: launch_def Let_def io_bind_def io_then_def io_return_def os_path_isfile_def
      bot_send_def logger_def io_modify_def popen_def split: if_splits)

lemma launch_handles:
  assumes "io_foldl files (launch E dir chat) acc w = (Inr procs, w')"
    and "n \<le> next_handle w" and "list_all (\<lambda>h. n \<le> h) acc"
  shows "list_all (\<lambda>h. n \<le> h) procs"
  using assms
proof (induction files arbitrary: acc w)
  case Nil
  then show ?case by (simp add: io_return_def)
next
  case (Cons f files)
  obtain r w1 where st: "launch E dir chat acc f w = (r, w1)"
    by (cases "launch E dir chat acc f w")
  from Cons.prems(1) st obtain acc1 where r: "r = Inr acc1"
    by (cases r) (simp_all add: io_bind_def)
  have rest: "io_foldl files (launch E dir chat) acc1 w1 = (Inr procs, w')"
    using Cons.prems(1) st r by (simp add: io_bind_def)
  have "handles_rel w w1"
    using staysD [OF stays_launch [OF lax_handles_rel] st] .
  then have n1: "n \<le> next_handle w1" using Cons.prems(2) by (simp add: handles_rel_def)
  have "acc1 = acc \<or> acc1 = acc @ [next_handle w]"
    using launch_result st r by blast
  then have "list_all (\<lambda>h. n \<le> h) acc1"
    using Cons.prems(2,3) by auto
  then show ?case using Cons.IH [OF rest n1] by blast
qed

lemma compute_end_time_result:
  assumes "compute_end_time E d w = (Inr e, w')"
  shows "(e = None) = (d = None \<or> d = Some 0)"
  using assms
  by (auto simp: compute_end_time_def io_return_def io_bind_def datetime_now_def
      split: option.splits if_splits)

text \<open>
  Every entry that \<open>run_project\<close> writes, in whichever attempt, holds handles obtained in
  that call, the chat and the flag it was called with, and an end time exactly when the
  duration is neither \<open>None\<close> nor 0.
\<close>

lemma stays_finish_launch_fresh:
  assumes "list_all (\<lambda>h. n \<le> h) procs"
    and "\<And>i. chat_id i = chat \<Longrightarrow> auto_restart i = a \<Longrightarrow>
           (end_time i = None) = (d = None \<or> d = Some 0) \<Longrightarrow> Q i"
  shows "stays (fresh_rel n dir Q) (finish_launch E dir chat d a uid files procs)"
  unfolding finish_launch_def
  apply (rule stays_if)
   apply (intro stays_intros lax_fresh_rel)
  apply (rule stays_bind_val [where P = "\<lambda>w. True"
        and Q = "\<lambda>e. (e = None) = (d = None \<or> d = Some 0)"])
      apply (rule lax_fresh_rel)
     apply (rule stays_compute_end_time [OF lax_fresh_rel])
    apply (erule compute_end_time_result)
   apply (intro stays_intros lax_fresh_rel)
   apply (rule register_fresh)
    apply (simp add: assms(1))
   apply (rule assms(2))
     apply simp_all
  done

lemma stays_launch_all_fresh:
  assumes "\<And>i. chat_id i = chat \<Longrightarrow> auto_restart i = a \<Longrightarrow>
           (end_time i = None) = (d = None \<or> d = Some 0) \<Longrightarrow> Q i"
  shows "stays (fresh_rel n dir Q) (launch_all E dir chat d a uid files)"
  unfolding launch_all_def
  apply (rule stays_then [OF lax_fresh_rel stays_logger [OF lax_fresh_rel]])
  apply (rule stays_bind_val [where P = "\<lambda>w. n \<le> next_handle w"
        and Q = "\<lambda>procs. list_all (\<lambda>h. n \<le> h) procs"])
      apply (rule lax_fresh_rel)
     apply (intro stays_intros lax_fresh_rel)
    apply (erule (1) launch_handles)
    apply simp
   apply (erule stays_finish_launch_fresh)
   apply (erule (2) assms)
  apply (simp add: fresh_rel_def)
  done

lemma stays_run_project_fresh:
  assumes "\<And>i. chat_id i = chat \<Longrightarrow> auto_restart i = a \<Longrightarrow>
           (end_time i = None) = (d = None \<or> d = Some 0) \<Longrightarrow> Q i"
  shows "stays (fresh_rel n dir Q) (run_project E dir chat d a)"
  unfolding run_project_def
  by (intro stays_error_handler stays_run_project_around stays_launch_all_fresh lax_fresh_rel)
     (erule (2) assms)

lemma run_project_other_fresh:
  "d' \<noteq> dir \<Longrightarrow> stays (fresh_rel n d' Q) (run_project E dir chat d a)"
  by (rule stays_run_project) (simp_all add: register_other_fresh)

lemma stop_project_fresh: "stays (fresh_rel n d Q) (stop_project E dir chat pause)"
  by (rule stays_stop_project) (simp_all add: unregister_fresh)

end
